theory Spec2Isabelle
  imports Main
begin

section \<open>The Go library functions the filter calls\<close>

text \<open>
  The filter is written against Go's \<^verbatim>\<open>net/http\<close>, \<^verbatim>\<open>net/textproto\<close>, \<^verbatim>\<open>net\<close> and
  \<^verbatim>\<open>strings\<close> packages. The functions below follow those packages; a Go \<^verbatim>\<open>string\<close> is a
  byte sequence, here a \<^typ>\<open>string\<close> (a list of 8-bit characters).

  An \<^verbatim>\<open>http.Header\<close> is a \<^verbatim>\<open>map[string][]string\<close>: a partial map from the key, exactly
  as stored, to its list of values.
\<close>

type_synonym header = "string \<rightharpoonup> string list"

definition lower_letters :: string where
  "lower_letters = ''abcdefghijklmnopqrstuvwxyz''"

definition upper_letters :: string where
  "upper_letters = ''ABCDEFGHIJKLMNOPQRSTUVWXYZ''"

definition digits :: string where
  "digits = ''0123456789''"

text \<open>\<^verbatim>\<open>c -= 'a' - 'A'\<close> on a lower-case letter, \<^verbatim>\<open>c += 'a' - 'A'\<close> on an upper-case one.\<close>

definition toUpper :: "char \<Rightarrow> char" where
  "toUpper c = (case map_of (zip lower_letters upper_letters) c of Some d \<Rightarrow> d | None \<Rightarrow> c)"

definition toLower :: "char \<Rightarrow> char" where
  "toLower c = (case map_of (zip upper_letters lower_letters) c of Some d \<Rightarrow> d | None \<Rightarrow> c)"

text \<open>
  \<^verbatim>\<open>textproto.validHeaderFieldByte\<close>: the token characters of RFC 7230, that is letters,
  digits and \<^verbatim>\<open>! # $ % & ' * + - . ^ _ ` | ~\<close> (the apostrophe is byte 0x27, the backquote
  byte 0x60).
\<close>

definition validHeaderFieldByte :: "char \<Rightarrow> bool" where
  "validHeaderFieldByte c =
     (c \<in> set (lower_letters @ upper_letters @ digits @ ''!#$%&*+-.^_|~'' @ [CHR 0x27, CHR 0x60]))"

text \<open>
  The loop of \<^verbatim>\<open>textproto.canonicalMIMEHeaderKey\<close>: the first letter and every letter after
  a dash in upper case, every other letter in lower case. \<open>upper\<close> is the loop's flag.
\<close>

fun canonical_bytes :: "bool \<Rightarrow> string \<Rightarrow> string" where
  "canonical_bytes upper [] = []"
| "canonical_bytes upper (c # cs) =
     (let d = (if upper \<and> c \<in> set lower_letters then toUpper c
               else if \<not> upper \<and> c \<in> set upper_letters then toLower c
               else c)
      in d # canonical_bytes (d = CHR ''-'') cs)"

text \<open>
  \<^verbatim>\<open>textproto.CanonicalMIMEHeaderKey\<close> (\<^verbatim>\<open>http.CanonicalHeaderKey\<close>): a key holding a byte that
  is no token character (a space too) is returned unchanged; any other key is put in
  canonical form.
\<close>

definition CanonicalMIMEHeaderKey :: "string \<Rightarrow> string" where
  "CanonicalMIMEHeaderKey s = (if list_all validHeaderFieldByte s then canonical_bytes True s else s)"

text \<open>
  \<^verbatim>\<open>Header.Get\<close>, \<^verbatim>\<open>Header.Set\<close> and \<^verbatim>\<open>Header.Del\<close> canonicalise the key they are given;
  \<^verbatim>\<open>Get\<close> returns the first value, or the empty string when the key has no value.
  Indexing the map, \<^verbatim>\<open>h[k]\<close>, does not canonicalise.
\<close>

definition Header_Get :: "header \<Rightarrow> string \<Rightarrow> string" where
  "Header_Get h key = (case h (CanonicalMIMEHeaderKey key) of None \<Rightarrow> [] | Some [] \<Rightarrow> [] | Some (v # _) \<Rightarrow> v)"

definition Header_Set :: "header \<Rightarrow> string \<Rightarrow> string \<Rightarrow> header" where
  "Header_Set h key v = h(CanonicalMIMEHeaderKey key \<mapsto> [v])"

definition Header_Del :: "header \<Rightarrow> string \<Rightarrow> header" where
  "Header_Del h key = h(CanonicalMIMEHeaderKey key := None)"

text \<open>\<^verbatim>\<open>strings.Split(s, sep)\<close> for a one-byte separator: the empty string gives one empty field.\<close>

fun Split :: "string \<Rightarrow> char \<Rightarrow> string list" where
  "Split [] sep = [[]]"
| "Split (c # cs) sep =
     (if c = sep then [] # Split cs sep
      else (case Split cs sep of [] \<Rightarrow> [[c]] | w # ws \<Rightarrow> (c # w) # ws))"

text \<open>\<^verbatim>\<open>strings.Join(elems, sep)\<close>.\<close>

fun Join :: "string list \<Rightarrow> string \<Rightarrow> string" where
  "Join [] sep = []"
| "Join [x] sep = x"
| "Join (x # y # ys) sep = x @ sep @ Join (y # ys) sep"

text \<open>\<^verbatim>\<open>textproto.TrimString\<close>: leading and trailing space, tab, line feed and carriage return go.\<close>

definition isASCIISpace :: "char \<Rightarrow> bool" where
  "isASCIISpace b = (b = CHR '' '' \<or> b = CHR 0x09 \<or> b = CHR 0x0A \<or> b = CHR 0x0D)"

definition TrimString :: "string \<Rightarrow> string" where
  "TrimString s = rev (dropWhile isASCIISpace (rev (dropWhile isASCIISpace s)))"

text \<open>\<^verbatim>\<open>bytealg.IndexByteString\<close> and \<^verbatim>\<open>bytealg.LastIndexByteString\<close>; \<open>None\<close> is Go's -1.\<close>

fun IndexByteString :: "string \<Rightarrow> char \<Rightarrow> nat option" where
  "IndexByteString [] c = None"
| "IndexByteString (x # xs) c = (if x = c then Some 0 else map_option Suc (IndexByteString xs c))"

definition LastIndexByteString :: "string \<Rightarrow> char \<Rightarrow> nat option" where
  "LastIndexByteString s c = map_option (\<lambda>k. length s - 1 - k) (IndexByteString (rev s) c)"

text \<open>
  \<^verbatim>\<open>net.SplitHostPort\<close>: \<^verbatim>\<open>host:port\<close> or \<^verbatim>\<open>[host]:port\<close> into host and port, or an error
  (its message) for an address with no port, with too many colons or with a misplaced
  bracket.
\<close>

definition SplitHostPort :: "string \<Rightarrow> string + (string \<times> string)" where
  "SplitHostPort hostport =
     (case LastIndexByteString hostport (CHR '':'') of
        None \<Rightarrow> Inl ''missing port in address''
      | Some i \<Rightarrow>
          let bracketed =
            (if hd hostport = CHR ''[''
             then (case IndexByteString hostport (CHR '']'') of
                     None \<Rightarrow> Inl ''missing ] in address''
                   | Some e \<Rightarrow>
                       if e + 1 = length hostport then Inl ''missing port in address''
                       else if e + 1 = i then Inr (take (e - 1) (drop 1 hostport), 1, e + 1)
                       else if hostport ! (e + 1) = CHR '':'' then Inl ''too many colons in address''
                       else Inl ''missing port in address'')
             else if IndexByteString (take i hostport) (CHR '':'') \<noteq> None
                  then Inl ''too many colons in address''
                  else Inr (take i hostport, 0, 0))
          in (case bracketed of
                Inl e \<Rightarrow> Inl e
              | Inr (host, j, k) \<Rightarrow>
                  if IndexByteString (drop j hostport) (CHR ''['') \<noteq> None
                  then Inl ''unexpected [ in address''
                  else if IndexByteString (drop k hostport) (CHR '']'') \<noteq> None
                  then Inl ''unexpected ] in address''
                  else Inr (host, drop (i + 1) hostport)))"

text \<open>Indexing a header map, \<^verbatim>\<open>h[k]\<close>: the nil slice (no values) for a key the map lacks.\<close>

definition index :: "header \<Rightarrow> string \<Rightarrow> string list" where
  "index h k = (case h k of None \<Rightarrow> [] | Some vs \<Rightarrow> vs)"

section \<open>The hop-by-hop sanitizer\<close>

text \<open>
  An inbound \<^verbatim>\<open>http.Request\<close>, with the fields the filter reads. \<open>TLS\<close> is \<^verbatim>\<open>req.TLS != nil\<close>;
  \<open>Body\<close> holds the bytes the body stream delivers. The server hands a handler a request
  whose \<open>Header\<close> is a map, never nil.
\<close>

record request =
  Method :: string
  Host :: string
  RequestURI :: string
  RemoteAddr :: string
  TLS :: bool
  Header :: header
  Body :: string

definition connectionHeader :: string where
  "connectionHeader = ''Connection''"

text \<open>
  \<^verbatim>\<open>removeConnectionHeaders\<close>: for each value of the \<^verbatim>\<open>Connection\<close> entry and each of its
  comma-separated fields, trimmed, delete the header the field names. Go evaluates the
  range expression \<^verbatim>\<open>h[connectionHeader]\<close> once, so the loop runs over the values the map
  held on entry even when a field names \<^verbatim>\<open>Connection\<close> itself.
\<close>

definition removeConnectionHeaders :: "header \<Rightarrow> header" where
  "removeConnectionHeaders h =
     fold (\<lambda>f h. fold (\<lambda>sf h. let sf = TrimString sf in if sf \<noteq> [] then Header_Del h sf else h)
                       (Split f (CHR '','')) h)
          (index h connectionHeader) h"

text \<open>
  \<^verbatim>\<open>Remover(next)\<close>: the handler that sanitizes the request's headers in place and then
  calls \<open>next\<close> with the same response writer and request. \<open>'w\<close> is whatever the wrapped
  handler takes for the response writer and \<open>'a\<close> what running it yields.
\<close>

definition Remover :: "('w \<Rightarrow> request \<Rightarrow> 'a) \<Rightarrow> 'w \<Rightarrow> request \<Rightarrow> 'a" where
  "Remover next rw req =
     (let h = removeConnectionHeaders (Header req);
          h = Header_Del h connectionHeader
      in next rw (req\<lparr>Header := h\<rparr>))"

section \<open>The shadow request builder\<close>

text \<open>
  The authority's URL, as \<^verbatim>\<open>url.Parse\<close> left it: \<open>url_Hostname\<close> is what \<^verbatim>\<open>u.Hostname()\<close>
  returns, \<open>url_Path\<close> is \<^verbatim>\<open>u.Path\<close>.
\<close>

record url =
  url_Hostname :: string
  url_Path :: string

text \<open>
  The pooled outbound \<^verbatim>\<open>http.Request\<close>. Its URL, header map and body are pointers or
  maps that the pool resets to nil, so each is an option here: reading a nil map gives
  no value, deleting from it does nothing, assigning to it panics, and so does calling
  \<^verbatim>\<open>Hostname\<close> on a nil URL.
\<close>

record forward_request =
  fwd_Method :: string
  fwd_URL :: "url option"
  fwd_Header :: "header option"
  fwd_Body :: "string option"

datatype panic = NilMapAssignment | NilPointerDereference | InvalidWriteHeaderCode int

definition xForwardedMethod :: string where "xForwardedMethod = ''X-Forwarded-Method''"
definition XForwardedProto :: string where "XForwardedProto = ''X-Forwarded-Proto''"
definition XForwardedFor :: string where "XForwardedFor = ''X-Forwarded-For''"
definition XForwardedHost :: string where "XForwardedHost = ''X-Forwarded-Host''"
definition XForwardedUri :: string where "XForwardedUri = ''X-Forwarded-Uri''"
definition Connection :: string where "Connection = ''Connection''"
definition KeepAlive :: string where "KeepAlive = ''Keep-Alive''"
definition Te :: string where "Te = ''Te''"
definition Trailers :: string where "Trailers = ''Trailers''"
definition TransferEncoding :: string where "TransferEncoding = ''Transfer-Encoding''"
definition Upgrade :: string where "Upgrade = ''Upgrade''"

definition hopHeaders :: "string list" where
  "hopHeaders = [Connection, KeepAlive, Te, Trailers, TransferEncoding, Upgrade]"

text \<open>
  The copy loop of both \<^verbatim>\<open>writeHeader\<close>s,
  \<^verbatim>\<open>for k, vv := range req.Header { forwardReq.Header[k] = append(req.Header[k], vv...) }\<close>,
  on a destination map that is not nil. Each round reads and writes the one key \<open>k\<close>, so
  the order in which the range visits the keys does not show in the result. \<^verbatim>\<open>append\<close>
  may write behind the end of the inbound slice's array, which no slice of the inbound
  map reaches: the inbound map is as before.
\<close>

definition copy_headers :: "header \<Rightarrow> header \<Rightarrow> header" where
  "copy_headers src dst = (\<lambda>k. case src k of None \<Rightarrow> dst k | Some vv \<Rightarrow> Some (index src k @ vv))"

text \<open>The allowlist loop of both \<^verbatim>\<open>writeHeader\<close>s, into the map \<open>headers\<close>.\<close>

definition allowed_headers :: "header \<Rightarrow> string list \<Rightarrow> header \<Rightarrow> header" where
  "allowed_headers src allowedHeaders headers =
     fold (\<lambda>header h. let v = Header_Get src header in if v \<noteq> [] then Header_Set h header v else h)
          allowedHeaders headers"

text \<open>
  The lines of \<^verbatim>\<open>writeHeader\<close> that set \<^verbatim>\<open>Host\<close> and the \<^verbatim>\<open>X-Forwarded-\<close> headers, on a
  header map \<open>h\<close> that is not nil and for the shadow request's URL \<open>u\<close>. The peer address
  is forwarded only when \<^verbatim>\<open>net.SplitHostPort\<close> accepts \<^verbatim>\<open>req.RemoteAddr\<close>.
\<close>

definition set_forwarded :: "request \<Rightarrow> url \<Rightarrow> header \<Rightarrow> header" where
  "set_forwarded req u h =
     (let h = Header_Set h ''Host'' (url_Hostname u);
          h = (case SplitHostPort (RemoteAddr req) of
                 Inl err \<Rightarrow> h
               | Inr (clientIP, port) \<Rightarrow>
                   let clientIP =
                     (case Header req XForwardedFor of
                        Some prior \<Rightarrow> Join prior '', '' @ '', '' @ clientIP
                      | None \<Rightarrow> clientIP)
                   in Header_Set h XForwardedFor clientIP);
          h = Header_Set h xForwardedMethod (Method req);
          h = Header_Set h XForwardedHost (Host req);
          h = Header_Set h XForwardedUri (RequestURI req);
          xfp = Header_Get (Header req) XForwardedProto
      in if xfp \<noteq> [] then Header_Set h XForwardedProto xfp
         else if TLS req then Header_Set h XForwardedProto ''https''
         else Header_Set h XForwardedProto ''http'')"

text \<open>
  From the hop-by-hop loop to the end of \<^verbatim>\<open>writeHeader\<close>, where the two files agree line
  by line. \<open>hdr\<close> is \<^verbatim>\<open>forwardReq.Header\<close> on entry, possibly nil. The deletions do nothing
  on a nil map; \<^verbatim>\<open>forwardReq.URL.Hostname()\<close> is evaluated next and panics on a nil URL; the
  first \<^verbatim>\<open>Set\<close> panics on a nil map, and past it the map is not nil.
\<close>

definition writeHeader_rest :: "request \<Rightarrow> url option \<Rightarrow> header option \<Rightarrow> panic + header" where
  "writeHeader_rest req URL hdr =
     (let hdr = map_option (fold (\<lambda>header h. Header_Del h header) hopHeaders) hdr
      in case URL of
           None \<Rightarrow> Inl NilPointerDereference
         | Some u \<Rightarrow>
            (case hdr of
               None \<Rightarrow> Inl NilMapAssignment
             | Some h \<Rightarrow> Inr (set_forwarded req u h)))"

text \<open>
  \<^verbatim>\<open>writeHeader\<close> of \<^verbatim>\<open>src/unnamed/part_001\<close>, the file that also declares \<^verbatim>\<open>Remover\<close> in the
  filter's package, as \<^verbatim>\<open>New\<close> needs it: it starts from a fresh map, \<open>h\<close>, stored in
  \<^verbatim>\<open>forwardReq.Header\<close>.
\<close>

definition writeHeader :: "request \<Rightarrow> forward_request \<Rightarrow> string list \<Rightarrow> panic + forward_request" where
  "writeHeader req forwardReq allowedHeaders =
     (let h = Map.empty;
          h = (if allowedHeaders = [] then copy_headers (Header req) h
               else allowed_headers (Header req) allowedHeaders h)
      in case writeHeader_rest req (fwd_URL forwardReq) (Some h) of
           Inl p \<Rightarrow> Inl p
         | Inr h \<Rightarrow> Inr (forwardReq\<lparr>fwd_Header := Some h\<rparr>))"

text \<open>
  \<^verbatim>\<open>writeHeader\<close> of \<^verbatim>\<open>src/unnamed/part_000\<close>: with an empty allowlist it writes into the
  header map the shadow request came with, and the first round of the copy loop panics
  when that map is nil; with an allowlist it fills a fresh map and stores it.
\<close>

definition writeHeader_part_000 ::
  "request \<Rightarrow> forward_request \<Rightarrow> string list \<Rightarrow> panic + forward_request" where
  "writeHeader_part_000 req forwardReq allowedHeaders =
     (let copied =
        (if allowedHeaders = []
         then (case fwd_Header forwardReq of
                 None \<Rightarrow> if Header req = Map.empty then Inr None else Inl NilMapAssignment
               | Some h \<Rightarrow> Inr (Some (copy_headers (Header req) h)))
         else Inr (Some (allowed_headers (Header req) allowedHeaders Map.empty)))
      in case copied of
           Inl p \<Rightarrow> Inl p
         | Inr hdr \<Rightarrow>
            (case writeHeader_rest req (fwd_URL forwardReq) hdr of
               Inl p \<Rightarrow> Inl p
             | Inr h \<Rightarrow> Inr (forwardReq\<lparr>fwd_Header := Some h\<rparr>)))"

section \<open>The decision engine\<close>

text \<open>
  An authority's \<^verbatim>\<open>http.Response\<close>. \<open>StatusCode\<close> is Go's \<^verbatim>\<open>int\<close> and \<open>ContentLength\<close> its
  \<^verbatim>\<open>int64\<close>, which is -1 when the length is unknown (a chunked response); the filter only
  compares them, so they are integers here. \<open>resp_Body\<close> holds the bytes the body stream
  delivers.
\<close>

record response =
  StatusCode :: int
  Status :: string
  ContentLength :: int
  resp_Header :: header
  resp_Body :: string

text \<open>
  What \<^verbatim>\<open>client.Do\<close> returns: a response and no error, or an error, with which a response
  may still come (the filter tests for it).
\<close>

datatype dispatch = Responded response | Failed string "response option"

text \<open>
  The HTTP client is the filter's environment. A round trip is what one call of
  \<^verbatim>\<open>client.Do\<close> does: its \<^typ>\<open>dispatch\<close>, and the number of bytes it has read from the
  shadow request's body by the time it returns. It is a parameter of \<^verbatim>\<open>ServeHTTP\<close>, so a
  statement about every round trip is one about every client.
\<close>

type_synonym round_trip = "dispatch \<times> nat"

text \<open>
  The filter, with the configuration fields \<^verbatim>\<open>ServeHTTP\<close> reads. \<^verbatim>\<open>ForwardHeaders\<close> is a Go
  map from suffix to value: it is given as the list of its entries in the order the
  range loop visits them (ranging over a nil map visits nothing, as over an empty one).
\<close>

record forward_filter =
  ForwardHeaders :: "(string \<times> string) list"
  RequestHeaders :: "string list"
  RequestWithBody :: bool
  ResponseHeaders :: "string list"
  FailurePolicy :: string
  FailureStatusCode :: "int list"
  u :: url

definition FailureIgnore :: string where "FailureIgnore = ''ignore''"
definition FailureAbort :: string where "FailureAbort = ''abort''"
definition StatusBadGateway :: int where "StatusBadGateway = 502"
definition MethodGet :: string where "MethodGet = ''GET''"
definition MethodPost :: string where "MethodPost = ''POST''"

text \<open>
  Everything a call of \<^verbatim>\<open>ServeHTTP\<close> can change outside the two requests: the response
  writer (its header map, the status codes written with \<^verbatim>\<open>WriteHeader\<close>, the body bytes
  copied to it), the calls of the downstream handler (the request each was given; what
  the handler then does is its own affair), the shadow requests handed to the client,
  whether the authority response's body has been closed, the log, the request pool, and
  the panic, if any, that was raised after the dispatch and with which \<^verbatim>\<open>ServeHTTP\<close> leaves:
  what was done before the panic stays done, and the functions deferred earlier still run.
\<close>

record world =
  rw_Header :: header
  rw_status :: "int list"
  rw_body :: string
  next_requests :: "request list"
  dispatched :: "forward_request list"
  response_closed :: bool
  log_lines :: "string list"
  requestPool :: "forward_request list"
  panicked :: "panic option"

text \<open>
  \<^verbatim>\<open>requestPool.Get()\<close>: a pooled request when there is one, else \<^verbatim>\<open>new(http.Request)\<close>,
  all of whose fields are zero.
\<close>

definition requestPool_Get :: "world \<Rightarrow> forward_request \<times> world" where
  "requestPool_Get rw =
     (case requestPool rw of
        [] \<Rightarrow> (\<lparr>fwd_Method = [], fwd_URL = None, fwd_Header = None, fwd_Body = None\<rparr>, rw)
      | x # xs \<Rightarrow> (x, rw\<lparr>requestPool := xs\<rparr>))"

text \<open>The first deferred function: reset the shadow request and put it back.\<close>

definition requestPool_Put :: "forward_request \<Rightarrow> world \<Rightarrow> world" where
  "requestPool_Put forwardReq rw =
     rw\<lparr>requestPool :=
          forwardReq\<lparr>fwd_Header := None, fwd_Body := None, fwd_URL := None, fwd_Method := MethodGet\<rparr>
          # requestPool rw\<rparr>"

definition next_ServeHTTP :: "world \<Rightarrow> request \<Rightarrow> world" where
  "next_ServeHTTP rw r = rw\<lparr>next_requests := next_requests rw @ [r]\<rparr>"

text \<open>
  \<^verbatim>\<open>rw.WriteHeader(statusCode)\<close> on the response writer of \<^verbatim>\<open>net/http\<close>, whose
  \<^verbatim>\<open>checkWriteHeaderCode\<close> panics on a code under 100 or over 999 and writes nothing then.
\<close>

definition WriteHeader :: "world \<Rightarrow> int \<Rightarrow> panic + world" where
  "WriteHeader rw statusCode =
     (if statusCode < 100 \<or> statusCode > 999 then Inl (InvalidWriteHeaderCode statusCode)
      else Inr (rw\<lparr>rw_status := rw_status rw @ [statusCode]\<rparr>))"

text \<open>A panic raised after the dispatch, in the world as it is by then.\<close>

definition raised :: "world \<Rightarrow> panic \<Rightarrow> world" where
  "raised rw p = rw\<lparr>panicked := Some p\<rparr>"

text \<open>\<^verbatim>\<open>forwardReq.Header.Set(key, v)\<close> on the shadow request, whose map may be nil.\<close>

definition fwd_Header_Set :: "forward_request \<Rightarrow> string \<Rightarrow> string \<Rightarrow> panic + forward_request" where
  "fwd_Header_Set forwardReq key v =
     (case fwd_Header forwardReq of
        None \<Rightarrow> Inl NilMapAssignment
      | Some h \<Rightarrow> Inr (forwardReq\<lparr>fwd_Header := Some (Header_Set h key v)\<rparr>))"

text \<open>The loop over \<^verbatim>\<open>f.ForwardHeaders\<close>.\<close>

fun set_ForwardHeaders :: "(string \<times> string) list \<Rightarrow> forward_request \<Rightarrow> panic + forward_request" where
  "set_ForwardHeaders [] forwardReq = Inr forwardReq"
| "set_ForwardHeaders ((k, v) # kvs) forwardReq =
     (case fwd_Header_Set forwardReq (''X-Forwarded-'' @ k) v of
        Inl p \<Rightarrow> Inl p
      | Inr forwardReq \<Rightarrow> set_ForwardHeaders kvs forwardReq)"

text \<open>
  \<^verbatim>\<open>ServeHTTP\<close> up to the dispatch: the URL, \<^verbatim>\<open>writeHeader\<close>, the operator's forward headers
  and, when the body is mirrored, the tee reader over the inbound body, the method and the
  content type.
\<close>

definition ServeHTTP_shadow :: "forward_filter \<Rightarrow> request \<Rightarrow> forward_request \<Rightarrow> panic + forward_request" where
  "ServeHTTP_shadow f r forwardReq =
     (let u = u f;
          u = (if url_Path u = [] then u\<lparr>url_Path := RequestURI r\<rparr> else u);
          forwardReq = forwardReq\<lparr>fwd_URL := Some u\<rparr>
      in case writeHeader r forwardReq (RequestHeaders f) of
           Inl p \<Rightarrow> Inl p
         | Inr forwardReq \<Rightarrow>
            (case set_ForwardHeaders (ForwardHeaders f) forwardReq of
               Inl p \<Rightarrow> Inl p
             | Inr forwardReq \<Rightarrow>
                 if RequestWithBody f
                 then (let forwardReq = forwardReq\<lparr>fwd_Body := Some (Body r), fwd_Method := MethodPost\<rparr>;
                           ct = Header_Get (Header r) ''Content-Type''
                       in if ct \<noteq> [] then fwd_Header_Set forwardReq ''Content-Type'' ct
                          else Inr forwardReq)
                 else Inr forwardReq))"

text \<open>
  The response-header loop, run on the response writer's header map when relaying and on
  the inbound request's header map when passing.
\<close>

definition copy_response_headers :: "string list \<Rightarrow> response \<Rightarrow> header \<Rightarrow> header" where
  "copy_response_headers headers response h =
     fold (\<lambda>header h. let v = Header_Get (resp_Header response) header
                      in if v \<noteq> [] then Header_Set h header v else h)
          headers h"

text \<open>
  The tail of the deferred function (\<^verbatim>\<open>// bad status || 2xx with respond\<close>): the allowlisted
  response headers, the status code and, for a positive content length only, the body
  copied and closed. The authority's status code goes to \<^verbatim>\<open>WriteHeader\<close> as it came; when
  \<^verbatim>\<open>WriteHeader\<close> panics, the body is neither copied nor closed.
\<close>

definition relay :: "forward_filter \<Rightarrow> response \<Rightarrow> world \<Rightarrow> world" where
  "relay f response rw =
     (let rw = rw\<lparr>rw_Header := copy_response_headers (ResponseHeaders f) response (rw_Header rw)\<rparr>
      in case WriteHeader rw (StatusCode response) of
           Inl p \<Rightarrow> raised rw p
         | Inr rw \<Rightarrow>
             if ContentLength response > 0
             then rw\<lparr>rw_body := rw_body rw @ resp_Body response, response_closed := True\<rparr>
             else rw)"

text \<open>
  The deferred function that acts on the dispatch, run when \<^verbatim>\<open>ServeHTTP\<close> returns with the
  values \<open>isPass\<close>, \<open>err\<close> and \<open>response\<close> have by then. With neither an error nor a
  response it would read the status of a nil response.
\<close>

definition ServeHTTP_deferred ::
  "forward_filter \<Rightarrow> bool \<Rightarrow> string option \<Rightarrow> response option \<Rightarrow> request \<Rightarrow> world \<Rightarrow> world" where
  "ServeHTTP_deferred f isPass err response r rw =
     (if isPass then rw
      else case err of
             Some e \<Rightarrow>
               (let rw = rw\<lparr>log_lines := log_lines rw @ [e]\<rparr>
                in if FailurePolicy f = FailureIgnore then next_ServeHTTP rw r
                   else (case response of
                           None \<Rightarrow>
                             (case WriteHeader rw StatusBadGateway of
                                Inl p \<Rightarrow> raised rw p
                              | Inr rw \<Rightarrow> rw)
                         | Some resp \<Rightarrow> relay f resp rw))
           | None \<Rightarrow>
               (case response of
                  None \<Rightarrow> raised rw NilPointerDereference
                | Some resp \<Rightarrow> relay f resp rw))"

text \<open>The loop over \<^verbatim>\<open>f.FailureStatusCode\<close>, which stops at the first match: the new \<open>err\<close>.\<close>

fun failure_status :: "int list \<Rightarrow> response \<Rightarrow> string option \<Rightarrow> string option" where
  "failure_status [] response err = err"
| "failure_status (status # rest) response err =
     (if StatusCode response = status then Some (Status response)
      else failure_status rest response err)"

text \<open>
  \<^verbatim>\<open>ServeHTTP\<close> after the dispatch: the early return on an error, the pass on a 2xx
  response of content length zero (the allowlisted response headers are set on the inbound
  request, and the deferred function then returns at once), the failure status codes, and
  the deferred function.
\<close>

definition ServeHTTP_decide :: "forward_filter \<Rightarrow> dispatch \<Rightarrow> request \<Rightarrow> world \<Rightarrow> world" where
  "ServeHTTP_decide f answer r rw =
     (case answer of
        Failed e response \<Rightarrow> ServeHTTP_deferred f False (Some e) response r rw
      | Responded response \<Rightarrow>
          if StatusCode response \<ge> 200 \<and> StatusCode response < 300 \<and> ContentLength response = 0
          then (let r = r\<lparr>Header := copy_response_headers (ResponseHeaders f) response (Header r)\<rparr>;
                    rw = next_ServeHTTP rw r
                in ServeHTTP_deferred f True None (Some response) r rw)
          else ServeHTTP_deferred f False (failure_status (FailureStatusCode f) response None)
                 (Some response) r rw)"

text \<open>
  \<^verbatim>\<open>ServeHTTP\<close>. With the body mirrored, the inbound request's body is replaced by the
  buffer behind the tee reader, which holds the bytes the client has read from the shadow
  request's body; closing it (the second deferred function) does nothing. A panic while
  the shadow request is built leaves \<^verbatim>\<open>ServeHTTP\<close> before the dispatch, with nothing
  written; a panic after the dispatch is recorded in the world, and the shadow request
  is still put back.
\<close>

definition ServeHTTP :: "forward_filter \<Rightarrow> round_trip \<Rightarrow> world \<Rightarrow> request \<Rightarrow> panic + world" where
  "ServeHTTP f client_Do rw r =
     (let (forwardReq, rw) = requestPool_Get rw
      in case ServeHTTP_shadow f r forwardReq of
           Inl p \<Rightarrow> Inl p
         | Inr forwardReq \<Rightarrow>
             let (answer, n) = client_Do;
                 rw = rw\<lparr>dispatched := dispatched rw @ [forwardReq]\<rparr>;
                 r = (if RequestWithBody f then r\<lparr>Body := take n (Body r)\<rparr> else r);
                 rw = ServeHTTP_decide f answer r rw
             in Inr (requestPool_Put forwardReq rw))"

section \<open>What is observed of a run\<close>

text \<open>
  \<^verbatim>\<open>forwardReq.Header[k]\<close> with its presence flag: \<open>None\<close> when the map is nil or has no
  entry for \<open>k\<close>.
\<close>

definition header_entry :: "forward_request \<Rightarrow> string \<Rightarrow> string list option" where
  "header_entry forwardReq k = (case fwd_Header forwardReq of None \<Rightarrow> None | Some h \<Rightarrow> h k)"

text \<open>The entry for \<open>k\<close> of what \<^verbatim>\<open>writeHeader\<close> leaves in the shadow request, or its panic.\<close>

definition written_entry :: "panic + forward_request \<Rightarrow> string \<Rightarrow> panic + string list option" where
  "written_entry result k = map_sum id (\<lambda>forwardReq. header_entry forwardReq k) result"

text \<open>
  The entry for \<open>k\<close> on each shadow request that a run has handed to the client, and on
  each request that it has handed to the downstream handler.
\<close>

definition sent_entries :: "panic + world \<Rightarrow> string \<Rightarrow> panic + string list option list" where
  "sent_entries result k = map_sum id (\<lambda>rw. map (\<lambda>forwardReq. header_entry forwardReq k) (dispatched rw)) result"

definition handed_entries :: "panic + world \<Rightarrow> string \<Rightarrow> panic + string list option list" where
  "handed_entries result k = map_sum id (\<lambda>rw. map (\<lambda>r. Header r k) (next_requests rw)) result"

text \<open>
  The header names that the \<^verbatim>\<open>Connection\<close> entry of a header map names: the fields that
  the loops of \<^verbatim>\<open>removeConnectionHeaders\<close> visit, trimmed, without the empty ones.
\<close>

definition connection_tokens :: "header \<Rightarrow> string list" where
  "connection_tokens h =
     filter (\<lambda>sf. sf \<noteq> []) (map TrimString (concat (map (\<lambda>f. Split f (CHR '','')) (index h connectionHeader))))"

text \<open>
  The status code that a dispatch brings, if it brings a response, is one that
  \<^verbatim>\<open>WriteHeader\<close> accepts.
\<close>

definition writable :: "dispatch \<Rightarrow> bool" where
  "writable answer =
     (case answer of
        Responded response \<Rightarrow> 100 \<le> StatusCode response \<and> StatusCode response \<le> 999
      | Failed e None \<Rightarrow> True
      | Failed e (Some response) \<Rightarrow> 100 \<le> StatusCode response \<and> StatusCode response \<le> 999)"

section \<open>Sample inputs\<close>

text \<open>
  Concrete inputs on which the theorems below are instantiated and the functions
  evaluated: a filter with the default failure status codes and one allowlisted response
  header, an inbound request that has come through one proxy, a response writer on which
  nothing has been written, and authority responses of a given status, content length
  and body.
\<close>

definition sample_filter :: forward_filter where
  "sample_filter =
     \<lparr>ForwardHeaders = [], RequestHeaders = [], RequestWithBody = False,
      ResponseHeaders = [''X-Auth-Reason''], FailurePolicy = FailureAbort,
      FailureStatusCode = [500, 502, 503, 504],
      u = \<lparr>url_Hostname = ''auth.internal'', url_Path = []\<rparr>\<rparr>"

definition sample_request :: request where
  "sample_request =
     \<lparr>Method = ''POST'', Host = ''shop.test'', RequestURI = ''/orders?id=7'',
      RemoteAddr = ''2.2.2.2:4711'', TLS = False,
      Header = [''Accept'' \<mapsto> [''text/html'', ''text/plain''],
                ''Keep-Alive'' \<mapsto> [''timeout=5''],
                ''X-Forwarded-For'' \<mapsto> [''1.1.1.1'']],
      Body = ''abc''\<rparr>"

text \<open>The same request, now naming two headers in \<^verbatim>\<open>Connection\<close> and carrying one of them.\<close>

definition sample_hop_request :: request where
  "sample_hop_request =
     sample_request\<lparr>Header := (Header sample_request)
        (''Connection'' \<mapsto> [''close, x-trace''], ''X-Trace'' \<mapsto> [''on''])\<rparr>"

definition sample_world :: world where
  "sample_world =
     \<lparr>rw_Header = Map.empty, rw_status = [], rw_body = [], next_requests = [],
      dispatched = [], response_closed = False, log_lines = [], requestPool = [],
      panicked = None\<rparr>"

definition sample_response :: "int \<Rightarrow> int \<Rightarrow> string \<Rightarrow> response" where
  "sample_response code len body =
     \<lparr>StatusCode = code, Status = ''status'', ContentLength = len,
      resp_Header = [''X-Auth-Reason'' \<mapsto> [''maintenance'']], resp_Body = body\<rparr>"

text \<open>
  A shadow request as the pool's reset leaves it (no header map, no body), with the URL
  that \<^verbatim>\<open>ServeHTTP\<close> gives it before it calls \<^verbatim>\<open>writeHeader\<close>.
\<close>

definition sample_pooled :: forward_request where
  "sample_pooled =
     \<lparr>fwd_Method = MethodGet, fwd_URL = Some \<lparr>url_Hostname = ''auth.internal'', url_Path = ''/orders?id=7''\<rparr>,
      fwd_Header = None, fwd_Body = None\<rparr>"

section \<open>Facts about the library functions\<close>

lemmas canonical_eval =
  CanonicalMIMEHeaderKey_def validHeaderFieldByte_def lower_letters_def upper_letters_def
  digits_def toUpper_def toLower_def Let_def

lemma canonical_Connection: "CanonicalMIMEHeaderKey connectionHeader = connectionHeader"
  by (simp add: canonical_eval connectionHeader_def)

lemmas header_names =
  XForwardedFor_def XForwardedProto_def XForwardedHost_def XForwardedUri_def xForwardedMethod_def
  Connection_def KeepAlive_def Te_def Trailers_def TransferEncoding_def Upgrade_def

text \<open>The header names of the source and of the sample inputs, canonicalised.\<close>

lemma canonical_literals:
  "CanonicalMIMEHeaderKey ''Host'' = ''Host''"
  "CanonicalMIMEHeaderKey ''Content-Type'' = ''Content-Type''"
  "CanonicalMIMEHeaderKey ''X-Forwarded-For'' = ''X-Forwarded-For''"
  "CanonicalMIMEHeaderKey ''X-Forwarded-Method'' = ''X-Forwarded-Method''"
  "CanonicalMIMEHeaderKey ''X-Forwarded-Host'' = ''X-Forwarded-Host''"
  "CanonicalMIMEHeaderKey ''X-Forwarded-Uri'' = ''X-Forwarded-Uri''"
  "CanonicalMIMEHeaderKey ''X-Forwarded-Proto'' = ''X-Forwarded-Proto''"
  "CanonicalMIMEHeaderKey ''Connection'' = ''Connection''"
  "CanonicalMIMEHeaderKey ''Keep-Alive'' = ''Keep-Alive''"
  "CanonicalMIMEHeaderKey ''Te'' = ''Te''"
  "CanonicalMIMEHeaderKey ''Trailers'' = ''Trailers''"
  "CanonicalMIMEHeaderKey ''Transfer-Encoding'' = ''Transfer-Encoding''"
  "CanonicalMIMEHeaderKey ''Upgrade'' = ''Upgrade''"
  "CanonicalMIMEHeaderKey ''Accept'' = ''Accept''"
  "CanonicalMIMEHeaderKey ''X-Auth-Reason'' = ''X-Auth-Reason''"
  "CanonicalMIMEHeaderKey ''X-Trace'' = ''X-Trace''"
  "CanonicalMIMEHeaderKey ''x-trace'' = ''X-Trace''"
  "CanonicalMIMEHeaderKey ''close'' = ''Close''"
  "CanonicalMIMEHeaderKey ''X-Forwarded-Tenant'' = ''X-Forwarded-Tenant''"
  by (simp_all add: canonical_eval)

text \<open>The sample peer addresses, split.\<close>

lemma SplitHostPort_samples:
  "SplitHostPort ''2.2.2.2:4711'' = Inr (''2.2.2.2'', ''4711'')"
  "SplitHostPort ''2.2.2.2'' = Inl ''missing port in address''"
  by (simp_all add: SplitHostPort_def LastIndexByteString_def Let_def)

lemmas header_eval =
  Header_Get_def Header_Set_def Header_Del_def index_def copy_headers_def allowed_headers_def
  copy_response_headers_def set_forwarded_def hopHeaders_def header_names canonical_literals
  SplitHostPort_samples header_entry_def written_entry_def sent_entries_def handed_entries_def

lemma Header_Del_absent: "Header_Del h key (CanonicalMIMEHeaderKey key) = None"
  by (simp add: Header_Del_def)

lemma Header_Del_idle: "h (CanonicalMIMEHeaderKey key) = None \<Longrightarrow> Header_Del h key = h"
  by (auto simp: Header_Del_def)

section \<open>The sanitizer\<close>

lemma removeConnectionHeaders_idle:
  "h connectionHeader = None \<Longrightarrow> removeConnectionHeaders h = h"
  by (simp add: removeConnectionHeaders_def index_def)

lemma sanitized_Connection:
  "Header_Del (removeConnectionHeaders h) connectionHeader connectionHeader = None"
  using Header_Del_absent [of "removeConnectionHeaders h" connectionHeader]
  by (simp add: canonical_Connection)

text \<open>
  C8. The sanitizer is idempotent. On a header map, removing the headers the
  \<^verbatim>\<open>Connection\<close> entry names and then the entry itself, twice, gives the map that doing it
  once gives; and wrapping a handler in \<^verbatim>\<open>Remover\<close> twice hands it, for every response
  writer and request, what wrapping it once hands it.
\<close>

theorem Remover_idempotent:
  "Header_Del (removeConnectionHeaders (Header_Del (removeConnectionHeaders h) connectionHeader))
     connectionHeader
   = Header_Del (removeConnectionHeaders h) connectionHeader
   \<and> Remover (Remover next) rw req = Remover next rw req"
proof -
  have twice: "Header_Del (removeConnectionHeaders (Header_Del (removeConnectionHeaders g) connectionHeader))
                 connectionHeader
               = Header_Del (removeConnectionHeaders g) connectionHeader" for g
  proof -
    let ?h = "Header_Del (removeConnectionHeaders g) connectionHeader"
    have gone: "?h connectionHeader = None" by (rule sanitized_Connection)
    then have "removeConnectionHeaders ?h = ?h" by (rule removeConnectionHeaders_idle)
    moreover have "Header_Del ?h connectionHeader = ?h"
      using gone by (simp add: Header_Del_idle canonical_Connection)
    ultimately show ?thesis by simp
  qed
  show ?thesis using twice [of h] twice [of "Header req"] by (simp add: Remover_def)
qed

section \<open>The shadow request and the decision engine\<close>

lemma writeHeader_Some:
  "fwd_URL forwardReq = Some url \<Longrightarrow>
   writeHeader req forwardReq allowedHeaders =
     Inr (forwardReq\<lparr>fwd_Header := Some (set_forwarded req url
            (fold (\<lambda>header h. Header_Del h header) hopHeaders
               (if allowedHeaders = [] then copy_headers (Header req) Map.empty
                else allowed_headers (Header req) allowedHeaders Map.empty)))\<rparr>)"
  by (simp add: writeHeader_def writeHeader_rest_def Let_def)

lemma set_ForwardHeaders_Some:
  "fwd_Header forwardReq = Some h \<Longrightarrow>
   set_ForwardHeaders kvs forwardReq =
     Inr (forwardReq\<lparr>fwd_Header := Some (fold (\<lambda>kv h. Header_Set h (''X-Forwarded-'' @ fst kv) (snd kv)) kvs h)\<rparr>)"
proof (induction kvs arbitrary: forwardReq h)
  case Nil
  then show ?case by simp
next
  case (Cons kv kvs)
  obtain k v where kv: "kv = (k, v)" by (cases kv)
  show ?case
    using Cons.IH [of "forwardReq\<lparr>fwd_Header := Some (Header_Set h (''X-Forwarded-'' @ k) v)\<rparr>"] Cons.prems
    by (simp add: kv fwd_Header_Set_def)
qed

lemma ServeHTTP_shadow_total:
  "\<exists>fr h. ServeHTTP_shadow f r forwardReq = Inr fr \<and> fwd_Header fr = Some h"
  by (simp add: ServeHTTP_shadow_def Let_def writeHeader_Some set_ForwardHeaders_Some fwd_Header_Set_def)

lemma failure_status_member:
  "failure_status codes response None =
     (if StatusCode response \<in> set codes then Some (Status response) else None)"
  by (induction codes) auto

text \<open>
  A run of \<^verbatim>\<open>ServeHTTP\<close> builds the shadow request without a panic, decides on the round
  trip and puts the shadow request back.
\<close>

lemma ServeHTTP_run:
  "\<exists>fr. ServeHTTP_shadow f r (fst (requestPool_Get rw)) = Inr fr \<and>
     ServeHTTP f (answer, n) rw r =
       Inr (requestPool_Put fr
             (ServeHTTP_decide f answer (if RequestWithBody f then r\<lparr>Body := take n (Body r)\<rparr> else r)
                ((snd (requestPool_Get rw))\<lparr>dispatched := dispatched (snd (requestPool_Get rw)) @ [fr]\<rparr>)))"
proof -
  obtain fr h where s: "ServeHTTP_shadow f r (fst (requestPool_Get rw)) = Inr fr"
    using ServeHTTP_shadow_total by blast
  show ?thesis using s by (cases "requestPool_Get rw") (simp add: ServeHTTP_def Let_def)
qed

lemma requestPool_Get_fields:
  "rw_Header (snd (requestPool_Get rw)) = rw_Header rw"
  "rw_status (snd (requestPool_Get rw)) = rw_status rw"
  "rw_body (snd (requestPool_Get rw)) = rw_body rw"
  "next_requests (snd (requestPool_Get rw)) = next_requests rw"
  "dispatched (snd (requestPool_Get rw)) = dispatched rw"
  "response_closed (snd (requestPool_Get rw)) = response_closed rw"
  "log_lines (snd (requestPool_Get rw)) = log_lines rw"
  "panicked (snd (requestPool_Get rw)) = panicked rw"
  by (simp_all add: requestPool_Get_def split: list.splits)

lemma requestPool_Put_fields:
  "rw_Header (requestPool_Put fr rw) = rw_Header rw"
  "rw_status (requestPool_Put fr rw) = rw_status rw"
  "rw_body (requestPool_Put fr rw) = rw_body rw"
  "next_requests (requestPool_Put fr rw) = next_requests rw"
  "dispatched (requestPool_Put fr rw) = dispatched rw"
  "response_closed (requestPool_Put fr rw) = response_closed rw"
  "log_lines (requestPool_Put fr rw) = log_lines rw"
  "panicked (requestPool_Put fr rw) = panicked rw"
  by (simp_all add: requestPool_Put_def)

text \<open>The decision table, one lemma for each way through \<^verbatim>\<open>ServeHTTP\<close> after the dispatch.\<close>

lemma decide_Failed_ignore:
  "FailurePolicy f = FailureIgnore \<Longrightarrow>
   ServeHTTP_decide f (Failed e response) r rw = next_ServeHTTP (rw\<lparr>log_lines := log_lines rw @ [e]\<rparr>) r"
  by (simp add: ServeHTTP_decide_def ServeHTTP_deferred_def)

lemma decide_Failed_abort_nil:
  "FailurePolicy f \<noteq> FailureIgnore \<Longrightarrow>
   ServeHTTP_decide f (Failed e None) r rw
     = rw\<lparr>log_lines := log_lines rw @ [e], rw_status := rw_status rw @ [StatusBadGateway]\<rparr>"
  by (simp add: ServeHTTP_decide_def ServeHTTP_deferred_def WriteHeader_def StatusBadGateway_def)

lemma decide_Failed_abort_response:
  "FailurePolicy f \<noteq> FailureIgnore \<Longrightarrow>
   ServeHTTP_decide f (Failed e (Some response)) r rw = relay f response (rw\<lparr>log_lines := log_lines rw @ [e]\<rparr>)"
  by (simp add: ServeHTTP_decide_def ServeHTTP_deferred_def)

lemma decide_pass:
  "200 \<le> StatusCode response \<Longrightarrow> StatusCode response < 300 \<Longrightarrow> ContentLength response = 0 \<Longrightarrow>
   ServeHTTP_decide f (Responded response) r rw =
     next_ServeHTTP rw (r\<lparr>Header := copy_response_headers (ResponseHeaders f) response (Header r)\<rparr>)"
  by (simp add: ServeHTTP_decide_def ServeHTTP_deferred_def Let_def)

lemma decide_failure_ignore:
  "\<not> (200 \<le> StatusCode response \<and> StatusCode response < 300 \<and> ContentLength response = 0) \<Longrightarrow>
   StatusCode response \<in> set (FailureStatusCode f) \<Longrightarrow> FailurePolicy f = FailureIgnore \<Longrightarrow>
   ServeHTTP_decide f (Responded response) r rw =
     next_ServeHTTP (rw\<lparr>log_lines := log_lines rw @ [Status response]\<rparr>) r"
  by (auto simp: ServeHTTP_decide_def ServeHTTP_deferred_def failure_status_member)

lemma decide_failure_abort:
  "\<not> (200 \<le> StatusCode response \<and> StatusCode response < 300 \<and> ContentLength response = 0) \<Longrightarrow>
   StatusCode response \<in> set (FailureStatusCode f) \<Longrightarrow> FailurePolicy f \<noteq> FailureIgnore \<Longrightarrow>
   ServeHTTP_decide f (Responded response) r rw =
     relay f response (rw\<lparr>log_lines := log_lines rw @ [Status response]\<rparr>)"
  by (auto simp: ServeHTTP_decide_def ServeHTTP_deferred_def failure_status_member)

lemma decide_respond:
  "\<not> (200 \<le> StatusCode response \<and> StatusCode response < 300 \<and> ContentLength response = 0) \<Longrightarrow>
   StatusCode response \<notin> set (FailureStatusCode f) \<Longrightarrow>
   ServeHTTP_decide f (Responded response) r rw = relay f response rw"
  by (auto simp: ServeHTTP_decide_def ServeHTTP_deferred_def failure_status_member)

text \<open>
  What relaying changes. The header map of the writer is set and the shadow requests and
  the handler's calls are as before whatever the status code; the status, the body and
  the closing need a status code that \<^verbatim>\<open>WriteHeader\<close> accepts.
\<close>

lemma relay_always:
  "next_requests (relay f response rw) = next_requests rw"
  "rw_Header (relay f response rw) = copy_response_headers (ResponseHeaders f) response (rw_Header rw)"
  "dispatched (relay f response rw) = dispatched rw"
  by (simp_all add: relay_def WriteHeader_def raised_def Let_def)

lemma relay_fields:
  assumes "100 \<le> StatusCode response" and "StatusCode response \<le> 999"
  shows "rw_status (relay f response rw) = rw_status rw @ [StatusCode response]"
    and "rw_body (relay f response rw)
           = (if ContentLength response > 0 then rw_body rw @ resp_Body response else rw_body rw)"
    and "response_closed (relay f response rw)
           = (if ContentLength response > 0 then True else response_closed rw)"
    and "panicked (relay f response rw) = panicked rw"
  using assms by (simp_all add: relay_def WriteHeader_def Let_def)

lemma relay_panics:
  assumes "StatusCode response < 100 \<or> StatusCode response > 999"
  shows "rw_status (relay f response rw) = rw_status rw"
    and "rw_body (relay f response rw) = rw_body rw"
    and "response_closed (relay f response rw) = response_closed rw"
    and "panicked (relay f response rw) = Some (InvalidWriteHeaderCode (StatusCode response))"
  using assms by (auto simp: relay_def WriteHeader_def raised_def Let_def)

lemma decide_one_terminal_action:
  assumes "writable answer"
  shows "panicked (ServeHTTP_decide f answer r rw) = panicked rw
     \<and> ((\<exists>r'. next_requests (ServeHTTP_decide f answer r rw) = next_requests rw @ [r'])
          \<and> rw_status (ServeHTTP_decide f answer r rw) = rw_status rw
          \<and> rw_body (ServeHTTP_decide f answer r rw) = rw_body rw
          \<and> rw_Header (ServeHTTP_decide f answer r rw) = rw_Header rw
        \<or> next_requests (ServeHTTP_decide f answer r rw) = next_requests rw
          \<and> (\<exists>code. rw_status (ServeHTTP_decide f answer r rw) = rw_status rw @ [code]))"
  using assms
  by (cases answer)
     (auto simp: writable_def ServeHTTP_decide_def ServeHTTP_deferred_def failure_status_member
        next_ServeHTTP_def WriteHeader_def StatusBadGateway_def relay_always relay_fields Let_def
        split: option.splits)

text \<open>
  With a status code that \<^verbatim>\<open>WriteHeader\<close> accepts, \<^verbatim>\<open>ServeHTTP\<close> returns without a panic
  having done exactly one of two things: it has called the downstream handler once and left
  the response writer as it was, or it has written one status and not called the handler.
\<close>

lemma one_terminal_action_when_writable:
  assumes "writable answer"
  shows "\<exists>rw'. ServeHTTP f (answer, n) rw r = Inr rw' \<and> panicked rw' = panicked rw
     \<and> ((\<exists>r'. next_requests rw' = next_requests rw @ [r']) \<and> rw_status rw' = rw_status rw
          \<and> rw_body rw' = rw_body rw \<and> rw_Header rw' = rw_Header rw
        \<or> next_requests rw' = next_requests rw \<and> (\<exists>code. rw_status rw' = rw_status rw @ [code]))"
proof -
  obtain fr where run: "ServeHTTP f (answer, n) rw r =
       Inr (requestPool_Put fr
             (ServeHTTP_decide f answer (if RequestWithBody f then r\<lparr>Body := take n (Body r)\<rparr> else r)
                ((snd (requestPool_Get rw))\<lparr>dispatched := dispatched (snd (requestPool_Get rw)) @ [fr]\<rparr>)))"
    using ServeHTTP_run [of f r rw answer n] by blast
  let ?r = "if RequestWithBody f then r\<lparr>Body := take n (Body r)\<rparr> else r"
  let ?rw = "(snd (requestPool_Get rw))\<lparr>dispatched := dispatched (snd (requestPool_Get rw)) @ [fr]\<rparr>"
  show ?thesis
    using decide_one_terminal_action [OF assms, of f ?r ?rw]
    by (simp add: run requestPool_Put_fields requestPool_Get_fields)
qed

lemmas sample_defs = sample_filter_def sample_request_def sample_world_def sample_response_def

lemmas ServeHTTP_eval =
  ServeHTTP_def ServeHTTP_shadow_def writeHeader_Some set_ForwardHeaders_Some Let_def
  requestPool_Get_def ServeHTTP_decide_def ServeHTTP_deferred_def FailureIgnore_def FailureAbort_def
  next_ServeHTTP_def requestPool_Put_def relay_def WriteHeader_def raised_def StatusBadGateway_def
  fwd_Header_Set_def

lemmas decision_eval =
  ServeHTTP_eval sample_defs Header_Get_def Header_Set_def copy_response_headers_def canonical_literals

text \<open>
  C2 fails on the code. The filter is the sample one, with the default failure status
  codes; the authority answers with the status line \<^verbatim>\<open>099\<close>, which Go's client delivers
  as status code 99. It is no 2xx and no failure status code, so the deferred function
  relays it: \<^verbatim>\<open>rw.WriteHeader(99)\<close> panics. \<^verbatim>\<open>ServeHTTP\<close> leaves with that panic, having
  written no status and not called the downstream handler: no terminal action, under
  the policy \<^verbatim>\<open>abort\<close> and under \<^verbatim>\<open>ignore\<close> alike.
\<close>

theorem invalid_status_no_terminal_action:
  "map_sum id rw_status
     (ServeHTTP sample_filter (Responded (sample_response 99 0 []), 0) sample_world sample_request) = Inr []
   \<and> map_sum id next_requests
     (ServeHTTP sample_filter (Responded (sample_response 99 0 []), 0) sample_world sample_request) = Inr []
   \<and> map_sum id panicked
     (ServeHTTP sample_filter (Responded (sample_response 99 0 []), 0) sample_world sample_request)
       = Inr (Some (InvalidWriteHeaderCode 99))
   \<and> map_sum id rw_status
     (ServeHTTP (sample_filter\<lparr>FailurePolicy := FailureIgnore\<rparr>) (Responded (sample_response 99 0 []), 0)
        sample_world sample_request) = Inr []
   \<and> map_sum id next_requests
     (ServeHTTP (sample_filter\<lparr>FailurePolicy := FailureIgnore\<rparr>) (Responded (sample_response 99 0 []), 0)
        sample_world sample_request) = Inr []
   \<and> map_sum id panicked
     (ServeHTTP (sample_filter\<lparr>FailurePolicy := FailureIgnore\<rparr>) (Responded (sample_response 99 0 []), 0)
        sample_world sample_request) = Inr (Some (InvalidWriteHeaderCode 99))"
  by (simp add: decision_eval)

section \<open>Failure status codes\<close>

lemma Header_Get_canonical:
  "CanonicalMIMEHeaderKey a = CanonicalMIMEHeaderKey b \<Longrightarrow> Header_Get h a = Header_Get h b"
  by (simp add: Header_Get_def)

lemma copy_response_headers_relayed:
  "header \<in> set headers \<Longrightarrow> Header_Get (resp_Header response) header \<noteq> [] \<Longrightarrow>
   copy_response_headers headers response h (CanonicalMIMEHeaderKey header)
     = Some [Header_Get (resp_Header response) header]"
proof (induction headers arbitrary: h rule: rev_induct)
  case Nil
  then show ?case by simp
next
  case (snoc x xs)
  show ?case
  proof (cases "CanonicalMIMEHeaderKey x = CanonicalMIMEHeaderKey header")
    case True
    then have "Header_Get (resp_Header response) x = Header_Get (resp_Header response) header"
      by (rule Header_Get_canonical)
    then show ?thesis using snoc.prems True
      by (simp add: copy_response_headers_def Header_Set_def)
  next
    case False
    then have "header \<in> set xs" using snoc.prems by auto
    then show ?thesis using snoc.IH [of h] snoc.prems False
      by (simp add: copy_response_headers_def Header_Set_def Let_def)
  qed
qed

lemma copy_response_headers_other:
  "k \<notin> CanonicalMIMEHeaderKey ` set headers \<Longrightarrow> copy_response_headers headers response h k = h k"
  by (induction headers arbitrary: h rule: rev_induct)
     (auto simp: copy_response_headers_def Header_Set_def Let_def)

text \<open>
  C1, as amended. When the dispatch succeeds with a status code that is among the filter's
  failure status codes and that the response writer accepts (100 to 999), the failure
  policy is not \<^verbatim>\<open>ignore\<close> (it is \<^verbatim>\<open>abort\<close>), and the response is not a 2xx of content
  length zero, \<^verbatim>\<open>ServeHTTP\<close> returns without a panic, writes that status, does not call the
  downstream handler, sets on the response writer every allowlisted response header that
  has a non-empty first value to that value, and, when the content length is positive,
  appends the authority's body to what the writer has received.
\<close>

theorem failure_status_relayed_under_abort:
  assumes "StatusCode response \<in> set (FailureStatusCode f)"
      and "FailurePolicy f \<noteq> FailureIgnore"
      and "\<not> (200 \<le> StatusCode response \<and> StatusCode response < 300 \<and> ContentLength response = 0)"
      and "100 \<le> StatusCode response" and "StatusCode response \<le> 999"
  shows "\<exists>rw'. ServeHTTP f (Responded response, n) rw r = Inr rw'
           \<and> panicked rw' = panicked rw
           \<and> rw_status rw' = rw_status rw @ [StatusCode response]
           \<and> next_requests rw' = next_requests rw
           \<and> (\<forall>header \<in> set (ResponseHeaders f).
                 Header_Get (resp_Header response) header \<noteq> [] \<longrightarrow>
                 rw_Header rw' (CanonicalMIMEHeaderKey header) = Some [Header_Get (resp_Header response) header])
           \<and> (0 < ContentLength response \<longrightarrow> rw_body rw' = rw_body rw @ resp_Body response)"
proof -
  note valid = assms(4) assms(5)
  obtain fr where run: "ServeHTTP f (Responded response, n) rw r =
       Inr (requestPool_Put fr
             (ServeHTTP_decide f (Responded response) (if RequestWithBody f then r\<lparr>Body := take n (Body r)\<rparr> else r)
                ((snd (requestPool_Get rw))\<lparr>dispatched := dispatched (snd (requestPool_Get rw)) @ [fr]\<rparr>)))"
    using ServeHTTP_run [of f r rw "Responded response" n] by blast
  let ?rw0 = "(snd (requestPool_Get rw))\<lparr>dispatched := dispatched (snd (requestPool_Get rw)) @ [fr]\<rparr>"
  let ?rw1 = "relay f response (?rw0\<lparr>log_lines := log_lines ?rw0 @ [Status response]\<rparr>)"
  have res: "ServeHTTP f (Responded response, n) rw r = Inr (requestPool_Put fr ?rw1)"
    using run decide_failure_abort [OF assms(3) assms(1) assms(2)] by simp
  have "panicked (requestPool_Put fr ?rw1) = panicked rw"
    by (simp add: requestPool_Put_fields relay_fields [OF valid] requestPool_Get_fields)
  moreover have "rw_status (requestPool_Put fr ?rw1) = rw_status rw @ [StatusCode response]"
    by (simp add: requestPool_Put_fields relay_fields [OF valid] requestPool_Get_fields)
  moreover have "next_requests (requestPool_Put fr ?rw1) = next_requests rw"
    by (simp add: requestPool_Put_fields relay_always requestPool_Get_fields)
  moreover have "\<forall>header \<in> set (ResponseHeaders f).
                 Header_Get (resp_Header response) header \<noteq> [] \<longrightarrow>
                 rw_Header (requestPool_Put fr ?rw1) (CanonicalMIMEHeaderKey header)
                   = Some [Header_Get (resp_Header response) header]"
    by (simp add: requestPool_Put_fields relay_always copy_response_headers_relayed)
  moreover have "0 < ContentLength response \<longrightarrow>
                 rw_body (requestPool_Put fr ?rw1) = rw_body rw @ resp_Body response"
    by (simp add: requestPool_Put_fields relay_fields [OF valid] requestPool_Get_fields)
  ultimately show ?thesis using res by blast
qed

theorem failure_status_relayed_under_abort_witness:
  "\<exists>rw'. ServeHTTP sample_filter (Responded (sample_response 503 4 ''down''), 0) sample_world sample_request = Inr rw'
         \<and> panicked rw' = None \<and> rw_status rw' = [503] \<and> next_requests rw' = []
         \<and> rw_Header rw' ''X-Auth-Reason'' = Some [''maintenance'']
         \<and> rw_body rw' = ''down''"
proof -
  have codes: "StatusCode (sample_response 503 4 ''down'') \<in> set (FailureStatusCode sample_filter)"
    by (simp add: sample_defs)
  have policy: "FailurePolicy sample_filter \<noteq> FailureIgnore"
    by (simp add: sample_defs FailureAbort_def FailureIgnore_def)
  have nopass: "\<not> (200 \<le> StatusCode (sample_response 503 4 ''down'') \<and> StatusCode (sample_response 503 4 ''down'') < 300
                 \<and> ContentLength (sample_response 503 4 ''down'') = 0)"
    by (simp add: sample_defs)
  have get: "Header_Get (resp_Header (sample_response 503 4 ''down'')) ''X-Auth-Reason'' = ''maintenance''"
    "CanonicalMIMEHeaderKey ''X-Auth-Reason'' = ''X-Auth-Reason''"
    by (simp_all add: sample_defs header_eval)
  have valid: "100 \<le> StatusCode (sample_response 503 4 ''down'')" "StatusCode (sample_response 503 4 ''down'') \<le> 999"
    by (simp_all add: sample_defs)
  show ?thesis
    using failure_status_relayed_under_abort [OF codes policy nopass valid, of 0 sample_world sample_request] get
    by (simp add: sample_defs)
qed

text \<open>
  C1 as stated fails. Under \<^verbatim>\<open>ignore\<close> a 503 that is a failure status code makes
  \<^verbatim>\<open>ServeHTTP\<close> call the downstream handler and write nothing; a 204 of content length
  zero that is a failure status code is passed to the downstream handler under \<^verbatim>\<open>abort\<close>
  too; a 503 of unknown content length (-1) has its status relayed but none of its
  body; and a status code 99 that the operator has listed makes \<^verbatim>\<open>WriteHeader\<close> panic,
  so that no status is written.
\<close>

theorem failure_status_counterexample:
  "map_sum id next_requests
     (ServeHTTP (sample_filter\<lparr>FailurePolicy := FailureIgnore\<rparr>) (Responded (sample_response 503 4 ''down''), 0)
        sample_world sample_request) = Inr [sample_request]
   \<and> map_sum id rw_status
     (ServeHTTP (sample_filter\<lparr>FailurePolicy := FailureIgnore\<rparr>) (Responded (sample_response 503 4 ''down''), 0)
        sample_world sample_request) = Inr []
   \<and> 503 \<in> set (FailureStatusCode (sample_filter\<lparr>FailurePolicy := FailureIgnore\<rparr>))
   \<and> map_sum id next_requests
     (ServeHTTP (sample_filter\<lparr>FailureStatusCode := [204]\<rparr>) (Responded (sample_response 204 0 []), 0)
        sample_world sample_request)
       = Inr [sample_request\<lparr>Header := (Header sample_request)(''X-Auth-Reason'' \<mapsto> [''maintenance''])\<rparr>]
   \<and> map_sum id rw_status
     (ServeHTTP (sample_filter\<lparr>FailureStatusCode := [204]\<rparr>) (Responded (sample_response 204 0 []), 0)
        sample_world sample_request) = Inr []
   \<and> map_sum id rw_body
     (ServeHTTP sample_filter (Responded (sample_response 503 (- 1) ''down''), 0) sample_world sample_request) = Inr []
   \<and> resp_Body (sample_response 503 (- 1) ''down'') = ''down''
   \<and> map_sum id rw_status
     (ServeHTTP (sample_filter\<lparr>FailureStatusCode := [99]\<rparr>) (Responded (sample_response 99 4 ''down''), 0)
        sample_world sample_request) = Inr []
   \<and> map_sum id panicked
     (ServeHTTP (sample_filter\<lparr>FailureStatusCode := [99]\<rparr>) (Responded (sample_response 99 4 ''down''), 0)
        sample_world sample_request) = Inr (Some (InvalidWriteHeaderCode 99))"
  by (simp add: decision_eval)

section \<open>Success responses with a body\<close>

text \<open>
  C4, as amended. When the dispatch succeeds with a 2xx status and a positive content
  length, and the status is not among the failure status codes or the failure policy is
  not \<^verbatim>\<open>ignore\<close>, \<^verbatim>\<open>ServeHTTP\<close> writes the authority's status, appends the authority's
  body unchanged to what the writer has received, and does not call the downstream
  handler.
\<close>

theorem success_with_body_relayed:
  assumes "200 \<le> StatusCode response" and "StatusCode response < 300"
      and "0 < ContentLength response"
      and "StatusCode response \<notin> set (FailureStatusCode f) \<or> FailurePolicy f \<noteq> FailureIgnore"
  shows "\<exists>rw'. ServeHTTP f (Responded response, n) rw r = Inr rw'
           \<and> rw_status rw' = rw_status rw @ [StatusCode response]
           \<and> rw_body rw' = rw_body rw @ resp_Body response
           \<and> next_requests rw' = next_requests rw"
proof -
  obtain fr where run: "ServeHTTP f (Responded response, n) rw r =
       Inr (requestPool_Put fr
             (ServeHTTP_decide f (Responded response) (if RequestWithBody f then r\<lparr>Body := take n (Body r)\<rparr> else r)
                ((snd (requestPool_Get rw))\<lparr>dispatched := dispatched (snd (requestPool_Get rw)) @ [fr]\<rparr>)))"
    using ServeHTTP_run [of f r rw "Responded response" n] by blast
  let ?r = "if RequestWithBody f then r\<lparr>Body := take n (Body r)\<rparr> else r"
  let ?rw0 = "(snd (requestPool_Get rw))\<lparr>dispatched := dispatched (snd (requestPool_Get rw)) @ [fr]\<rparr>"
  have nopass: "\<not> (200 \<le> StatusCode response \<and> StatusCode response < 300 \<and> ContentLength response = 0)"
    using assms(3) by simp
  have valid: "100 \<le> StatusCode response" "StatusCode response \<le> 999"
    using assms(1) assms(2) by simp_all
  have "\<exists>logged. ServeHTTP_decide f (Responded response) ?r ?rw0
                   = relay f response (?rw0\<lparr>log_lines := logged\<rparr>)"
  proof (cases "StatusCode response \<in> set (FailureStatusCode f)")
    case True
    then have "FailurePolicy f \<noteq> FailureIgnore" using assms(4) by simp
    then show ?thesis using decide_failure_abort [OF nopass True] by blast
  next
    case False
    have "?rw0\<lparr>log_lines := log_lines ?rw0\<rparr> = ?rw0" by simp
    then show ?thesis using decide_respond [OF nopass False, of ?r ?rw0] by metis
  qed
  then obtain logged where d: "ServeHTTP_decide f (Responded response) ?r ?rw0
                   = relay f response (?rw0\<lparr>log_lines := logged\<rparr>)" by blast
  let ?rw1 = "relay f response (?rw0\<lparr>log_lines := logged\<rparr>)"
  have res: "ServeHTTP f (Responded response, n) rw r = Inr (requestPool_Put fr ?rw1)"
    using run d by simp
  have "rw_status (requestPool_Put fr ?rw1) = rw_status rw @ [StatusCode response]"
    by (simp add: requestPool_Put_fields relay_fields [OF valid] requestPool_Get_fields)
  moreover have "rw_body (requestPool_Put fr ?rw1) = rw_body rw @ resp_Body response"
    using assms(3) by (simp add: requestPool_Put_fields relay_fields [OF valid] requestPool_Get_fields)
  moreover have "next_requests (requestPool_Put fr ?rw1) = next_requests rw"
    by (simp add: requestPool_Put_fields relay_always requestPool_Get_fields)
  ultimately show ?thesis using res by blast
qed

theorem success_with_body_relayed_witness:
  "\<exists>rw'. ServeHTTP (sample_filter\<lparr>FailurePolicy := FailureIgnore\<rparr>) (Responded (sample_response 200 4 ''down''), 0)
            sample_world sample_request = Inr rw'
         \<and> rw_status rw' = [200] \<and> rw_body rw' = ''down'' \<and> next_requests rw' = []"
proof -
  have a: "200 \<le> StatusCode (sample_response 200 4 ''down'')" "StatusCode (sample_response 200 4 ''down'') < 300"
     "0 < ContentLength (sample_response 200 4 ''down'')"
    by (simp_all add: sample_defs)
  have b: "StatusCode (sample_response 200 4 ''down'') \<notin> set (FailureStatusCode (sample_filter\<lparr>FailurePolicy := FailureIgnore\<rparr>))
       \<or> FailurePolicy (sample_filter\<lparr>FailurePolicy := FailureIgnore\<rparr>) \<noteq> FailureIgnore"
    by (simp add: sample_defs)
  show ?thesis
    using success_with_body_relayed [OF a b, of 0 sample_world sample_request]
    by (simp add: sample_defs)
qed

text \<open>
  C4 as stated fails. A 200 whose content length is not zero but unknown (-1, a chunked
  response) has its status written and none of its body; and a 200 of content length 4
  that is among the failure status codes is, under \<^verbatim>\<open>ignore\<close>, handed to the downstream
  handler with nothing written.
\<close>

theorem success_with_body_counterexample:
  "200 \<le> StatusCode (sample_response 200 (- 1) ''down'') \<and> StatusCode (sample_response 200 (- 1) ''down'') < 300
   \<and> ContentLength (sample_response 200 (- 1) ''down'') \<noteq> 0 \<and> resp_Body (sample_response 200 (- 1) ''down'') = ''down''
   \<and> map_sum id rw_status
       (ServeHTTP sample_filter (Responded (sample_response 200 (- 1) ''down''), 0) sample_world sample_request) = Inr [200]
   \<and> map_sum id rw_body
       (ServeHTTP sample_filter (Responded (sample_response 200 (- 1) ''down''), 0) sample_world sample_request) = Inr []
   \<and> map_sum id next_requests
       (ServeHTTP (sample_filter\<lparr>FailurePolicy := FailureIgnore, FailureStatusCode := [200, 500]\<rparr>)
          (Responded (sample_response 200 4 ''down''), 0) sample_world sample_request) = Inr [sample_request]
   \<and> map_sum id rw_status
       (ServeHTTP (sample_filter\<lparr>FailurePolicy := FailureIgnore, FailureStatusCode := [200, 500]\<rparr>)
          (Responded (sample_response 200 4 ''down''), 0) sample_world sample_request) = Inr []"
  by (simp add: decision_eval)

section \<open>Transport failures\<close>

text \<open>
  What \<^verbatim>\<open>ServeHTTP\<close> does when the dispatch fails. Under \<^verbatim>\<open>ignore\<close> it calls the
  downstream handler once and writes nothing; the request it hands on is the inbound one,
  except that with the body mirrored its body is the buffer behind the tee reader. Under
  any other policy, and with no response, it writes 502 and does not call the handler.
\<close>

lemma transport_failure_policy:
  "(FailurePolicy f = FailureIgnore \<longrightarrow>
      (\<exists>rw'. ServeHTTP f (Failed e response, n) rw r = Inr rw'
         \<and> next_requests rw' = next_requests rw @ [if RequestWithBody f then r\<lparr>Body := take n (Body r)\<rparr> else r]
         \<and> rw_status rw' = rw_status rw \<and> rw_body rw' = rw_body rw \<and> rw_Header rw' = rw_Header rw))
   \<and> (FailurePolicy f \<noteq> FailureIgnore \<longrightarrow>
      (\<exists>rw'. ServeHTTP f (Failed e None, n) rw r = Inr rw'
         \<and> next_requests rw' = next_requests rw
         \<and> rw_status rw' = rw_status rw @ [502] \<and> rw_body rw' = rw_body rw \<and> rw_Header rw' = rw_Header rw))"
proof -
  obtain fr where run: "ServeHTTP f (Failed e response, n) rw r =
       Inr (requestPool_Put fr
             (ServeHTTP_decide f (Failed e response) (if RequestWithBody f then r\<lparr>Body := take n (Body r)\<rparr> else r)
                ((snd (requestPool_Get rw))\<lparr>dispatched := dispatched (snd (requestPool_Get rw)) @ [fr]\<rparr>)))"
    using ServeHTTP_run [of f r rw "Failed e response" n] by blast
  obtain fr' where run': "ServeHTTP f (Failed e None, n) rw r =
       Inr (requestPool_Put fr'
             (ServeHTTP_decide f (Failed e None) (if RequestWithBody f then r\<lparr>Body := take n (Body r)\<rparr> else r)
                ((snd (requestPool_Get rw))\<lparr>dispatched := dispatched (snd (requestPool_Get rw)) @ [fr']\<rparr>)))"
    using ServeHTTP_run [of f r rw "Failed e None" n] by blast
  show ?thesis
    using run run'
    by (auto simp: decide_Failed_ignore decide_Failed_abort_nil requestPool_Put_fields requestPool_Get_fields
          next_ServeHTTP_def StatusBadGateway_def)
qed

text \<open>
  C5 fails on the code where the body is mirrored. The filter mirrors the body and ignores
  failures; the inbound request carries the body \<^verbatim>\<open>abc\<close>; the dispatch fails before the
  client has read a byte of it (the authority refuses the connection). The downstream
  handler is called with a request whose body is empty. Without the mirroring it is
  called with the inbound request as it came.
\<close>

theorem mirrored_body_lost_on_failure:
  "map_sum id next_requests
     (ServeHTTP (sample_filter\<lparr>FailurePolicy := FailureIgnore, RequestWithBody := True\<rparr>)
        (Failed ''connection refused'' None, 0) sample_world sample_request)
     = Inr [sample_request\<lparr>Body := []\<rparr>]
   \<and> Body sample_request = ''abc''
   \<and> map_sum id next_requests
     (ServeHTTP (sample_filter\<lparr>FailurePolicy := FailureIgnore\<rparr>)
        (Failed ''connection refused'' None, 0) sample_world sample_request)
     = Inr [sample_request]"
  by (simp add: decision_eval)

section \<open>The authority response's body\<close>

text \<open>On a pass the authority response's body is never closed.\<close>

lemma pass_leaves_body_open:
  assumes "200 \<le> StatusCode response" and "StatusCode response < 300" and "ContentLength response = 0"
  shows "\<exists>rw'. ServeHTTP f (Responded response, n) rw r = Inr rw'
           \<and> length (next_requests rw') = length (next_requests rw) + 1
           \<and> response_closed rw' = response_closed rw"
proof -
  obtain fr where run: "ServeHTTP f (Responded response, n) rw r =
       Inr (requestPool_Put fr
             (ServeHTTP_decide f (Responded response) (if RequestWithBody f then r\<lparr>Body := take n (Body r)\<rparr> else r)
                ((snd (requestPool_Get rw))\<lparr>dispatched := dispatched (snd (requestPool_Get rw)) @ [fr]\<rparr>)))"
    using ServeHTTP_run [of f r rw "Responded response" n] by blast
  show ?thesis
    using run
    by (simp add: decide_pass [OF assms] requestPool_Put_fields requestPool_Get_fields next_ServeHTTP_def)
qed

text \<open>
  C9 fails on the code. \<^verbatim>\<open>ServeHTTP\<close> closes the authority response's body only when it
  relays a response of positive content length. It returns with the body open after a
  pass (a 204 of content length zero), after handing a failure status to the downstream
  handler under \<^verbatim>\<open>ignore\<close> (a 503 with a body of 4 bytes), and after relaying a response
  of unknown content length (a chunked 200); the last conjunct is the path that closes.
\<close>

theorem response_body_left_open:
  "map_sum id response_closed
     (ServeHTTP sample_filter (Responded (sample_response 204 0 []), 0) sample_world sample_request) = Inr False
   \<and> map_sum id response_closed
     (ServeHTTP (sample_filter\<lparr>FailurePolicy := FailureIgnore\<rparr>) (Responded (sample_response 503 4 ''down''), 0)
        sample_world sample_request) = Inr False
   \<and> map_sum id response_closed
     (ServeHTTP sample_filter (Responded (sample_response 200 (- 1) ''down''), 0) sample_world sample_request) = Inr False
   \<and> map_sum id response_closed
     (ServeHTTP sample_filter (Responded (sample_response 200 4 ''down''), 0) sample_world sample_request) = Inr True"
  by (simp add: decision_eval)

section \<open>Header maps\<close>

lemma canonical_hop: "k \<in> set hopHeaders \<Longrightarrow> CanonicalMIMEHeaderKey k = k"
  by (auto simp: hopHeaders_def header_names canonical_literals)

lemma canonical_forwarded:
  "CanonicalMIMEHeaderKey ''Host'' = ''Host''"
  "CanonicalMIMEHeaderKey XForwardedFor = XForwardedFor"
  "CanonicalMIMEHeaderKey xForwardedMethod = xForwardedMethod"
  "CanonicalMIMEHeaderKey XForwardedHost = XForwardedHost"
  "CanonicalMIMEHeaderKey XForwardedUri = XForwardedUri"
  "CanonicalMIMEHeaderKey XForwardedProto = XForwardedProto"
  "CanonicalMIMEHeaderKey ''Content-Type'' = ''Content-Type''"
  by (simp_all add: header_names canonical_literals)

lemma canonical_bytes_append_dash:
  "canonical_bytes True (''X-Forwarded-'' @ s) = ''X-Forwarded-'' @ canonical_bytes True s"
  by (simp add: canonical_eval)

lemma canonical_X_Forwarded:
  "take 12 (CanonicalMIMEHeaderKey (''X-Forwarded-'' @ s)) = ''X-Forwarded-''"
proof (cases "list_all validHeaderFieldByte (''X-Forwarded-'' @ s)")
  case True
  then have "CanonicalMIMEHeaderKey (''X-Forwarded-'' @ s) = canonical_bytes True (''X-Forwarded-'' @ s)"
    by (simp only: CanonicalMIMEHeaderKey_def if_True)
  then show ?thesis by (simp only: canonical_bytes_append_dash) simp
next
  case False
  then have "CanonicalMIMEHeaderKey (''X-Forwarded-'' @ s) = ''X-Forwarded-'' @ s"
    by (simp only: CanonicalMIMEHeaderKey_def if_False)
  then show ?thesis by simp
qed

lemma fold_Header_Del:
  "fold (\<lambda>header h. Header_Del h header) ks h k
     = (if k \<in> CanonicalMIMEHeaderKey ` set ks then None else h k)"
  by (induction ks arbitrary: h) (auto simp: Header_Del_def)

lemma fold_trimmed_Del:
  "fold (\<lambda>sf h. let sf = TrimString sf in if sf \<noteq> [] then Header_Del h sf else h) sfs h
     = fold (\<lambda>header h. Header_Del h header) (filter (\<lambda>sf. sf \<noteq> []) (map TrimString sfs)) h"
  by (induction sfs arbitrary: h) (simp_all add: Let_def)

lemma fold_fields_Del:
  "fold (\<lambda>f h. fold (\<lambda>sf h. let sf = TrimString sf in if sf \<noteq> [] then Header_Del h sf else h)
                       (Split f (CHR '','')) h) fs h
     = fold (\<lambda>header h. Header_Del h header)
         (filter (\<lambda>sf. sf \<noteq> []) (map TrimString (concat (map (\<lambda>f. Split f (CHR '','')) fs)))) h"
  by (induction fs arbitrary: h) (simp_all add: fold_trimmed_Del)

lemma removeConnectionHeaders_tokens:
  "removeConnectionHeaders h = fold (\<lambda>header h. Header_Del h header) (connection_tokens h) h"
  by (simp add: removeConnectionHeaders_def connection_tokens_def fold_fields_Del)

lemma sanitized_entry:
  "Header_Del (removeConnectionHeaders h) connectionHeader k
     = (if k = connectionHeader \<or> k \<in> CanonicalMIMEHeaderKey ` set (connection_tokens h) then None else h k)"
proof -
  have "Header_Del g connectionHeader k = (if k = connectionHeader then None else g k)" for g
    by (simp add: Header_Del_def canonical_Connection)
  then show ?thesis by (simp add: removeConnectionHeaders_tokens fold_Header_Del)
qed

lemma copy_headers_entry:
  "copy_headers src Map.empty k = map_option (\<lambda>vv. vv @ vv) (src k)"
  by (simp add: copy_headers_def index_def split: option.splits)

lemma allowed_headers_absent:
  "src k = None \<Longrightarrow> allowed_headers src allowedHeaders h k = h k"
  by (induction allowedHeaders arbitrary: h rule: rev_induct)
     (auto simp: allowed_headers_def Header_Get_def Header_Set_def Let_def)

lemma not_forwarded_names:
  "take 12 k \<noteq> ''X-Forwarded-'' \<Longrightarrow>
   k \<noteq> XForwardedFor \<and> k \<noteq> xForwardedMethod \<and> k \<noteq> XForwardedHost \<and> k \<noteq> XForwardedUri
   \<and> k \<noteq> XForwardedProto"
  by (auto simp: header_names)

lemma Header_Set_other: "CanonicalMIMEHeaderKey key \<noteq> k \<Longrightarrow> Header_Set h key v k = h k"
  by (simp add: Header_Set_def)

lemma Header_Set_same: "Header_Set h key v (CanonicalMIMEHeaderKey key) = Some [v]"
  by (simp add: Header_Set_def)

lemma set_forwarded_other:
  assumes "k \<noteq> ''Host''" and "take 12 k \<noteq> ''X-Forwarded-''"
  shows "set_forwarded req url h k = h k"
proof -
  have n: "CanonicalMIMEHeaderKey ''Host'' \<noteq> k" "CanonicalMIMEHeaderKey XForwardedFor \<noteq> k"
    "CanonicalMIMEHeaderKey xForwardedMethod \<noteq> k" "CanonicalMIMEHeaderKey XForwardedHost \<noteq> k"
    "CanonicalMIMEHeaderKey XForwardedUri \<noteq> k" "CanonicalMIMEHeaderKey XForwardedProto \<noteq> k"
    using assms(1) not_forwarded_names [OF assms(2)] by (auto simp: canonical_forwarded)
  show ?thesis
    by (simp add: set_forwarded_def Let_def Header_Set_other n split: sum.splits prod.splits)
qed

lemma fold_ForwardHeaders_other:
  "take 12 k \<noteq> ''X-Forwarded-'' \<Longrightarrow>
   fold (\<lambda>kv h. Header_Set h (''X-Forwarded-'' @ fst kv) (snd kv)) kvs h k = h k"
  using canonical_X_Forwarded
  by (induction kvs arbitrary: h) (auto simp: Header_Set_def)

text \<open>The header map of the shadow request that \<^verbatim>\<open>ServeHTTP\<close> builds and dispatches.\<close>

lemma ServeHTTP_shadow_entry:
  assumes "ServeHTTP_shadow f r forwardReq = Inr fr"
  shows "\<exists>url. header_entry fr k =
     (let h = (if RequestHeaders f = [] then copy_headers (Header r) Map.empty
               else allowed_headers (Header r) (RequestHeaders f) Map.empty);
          h = fold (\<lambda>header h. Header_Del h header) hopHeaders h;
          h = set_forwarded r url h;
          h = fold (\<lambda>kv h. Header_Set h (''X-Forwarded-'' @ fst kv) (snd kv)) (ForwardHeaders f) h;
          ct = Header_Get (Header r) ''Content-Type''
      in if RequestWithBody f \<and> ct \<noteq> [] then Header_Set h ''Content-Type'' ct k else h k)"
  using assms
  by (auto simp: ServeHTTP_shadow_def Let_def writeHeader_Some set_ForwardHeaders_Some fwd_Header_Set_def
        header_entry_def split: if_splits)

lemma ServeHTTP_dispatched:
  "\<exists>rw' fr. ServeHTTP f client_Do rw r = Inr rw'
     \<and> ServeHTTP_shadow f r (fst (requestPool_Get rw)) = Inr fr
     \<and> dispatched rw' = dispatched rw @ [fr]"
proof -
  obtain answer n where c: "client_Do = (answer, n)" by (cases client_Do)
  obtain fr where s: "ServeHTTP_shadow f r (fst (requestPool_Get rw)) = Inr fr"
    and run: "ServeHTTP f (answer, n) rw r =
       Inr (requestPool_Put fr
             (ServeHTTP_decide f answer (if RequestWithBody f then r\<lparr>Body := take n (Body r)\<rparr> else r)
                ((snd (requestPool_Get rw))\<lparr>dispatched := dispatched (snd (requestPool_Get rw)) @ [fr]\<rparr>)))"
    using ServeHTTP_run [of f r rw answer n] by blast
  let ?r = "if RequestWithBody f then r\<lparr>Body := take n (Body r)\<rparr> else r"
  let ?rw = "(snd (requestPool_Get rw))\<lparr>dispatched := dispatched (snd (requestPool_Get rw)) @ [fr]\<rparr>"
  let ?rw1 = "ServeHTTP_decide f answer ?r ?rw"
  have d: "dispatched ?rw1 = dispatched ?rw"
    by (cases answer)
       (auto simp: ServeHTTP_decide_def ServeHTTP_deferred_def failure_status_member next_ServeHTTP_def
          WriteHeader_def raised_def relay_always Let_def split: option.splits)
  have "ServeHTTP f client_Do rw r = Inr (requestPool_Put fr ?rw1)" using run c by simp
  moreover have "dispatched (requestPool_Put fr ?rw1) = dispatched rw @ [fr]"
    using d by (simp add: requestPool_Put_fields requestPool_Get_fields)
  ultimately show ?thesis using s by blast
qed

lemma shadow_entry_absent:
  assumes s: "ServeHTTP_shadow f r forwardReq = Inr fr"
      and k: "k \<noteq> ''Host''" "take 12 k \<noteq> ''X-Forwarded-''"
      and gone: "Header r k = None \<or> k \<in> set hopHeaders"
  shows "header_entry fr k = None"
proof -
  let ?base = "if RequestHeaders f = [] then copy_headers (Header r) Map.empty
               else allowed_headers (Header r) (RequestHeaders f) Map.empty"
  let ?h1 = "fold (\<lambda>header h. Header_Del h header) hopHeaders ?base"
  have h1: "?h1 k = None"
  proof (cases "k \<in> set hopHeaders")
    case True
    then have "k \<in> CanonicalMIMEHeaderKey ` set hopHeaders"
      using canonical_hop by force
    then show ?thesis by (simp only: fold_Header_Del if_True)
  next
    case False
    then have "Header r k = None" using gone by simp
    then have "?base k = None"
      by (simp add: copy_headers_entry allowed_headers_absent)
    then show ?thesis by (simp add: fold_Header_Del)
  qed
  let ?h2 = "\<lambda>url. set_forwarded r url ?h1"
  let ?h3 = "\<lambda>url. fold (\<lambda>kv h. Header_Set h (''X-Forwarded-'' @ fst kv) (snd kv)) (ForwardHeaders f) (?h2 url)"
  let ?ct = "Header_Get (Header r) ''Content-Type''"
  have h3: "?h3 url k = None" for url
  proof -
    have "?h3 url k = ?h2 url k" by (rule fold_ForwardHeaders_other [OF k(2)])
    also have "\<dots> = ?h1 k" by (rule set_forwarded_other [OF k])
    finally show ?thesis using h1 by simp
  qed
  have ct: "?ct \<noteq> [] \<Longrightarrow> CanonicalMIMEHeaderKey ''Content-Type'' \<noteq> k"
    using gone by (auto simp: Header_Get_def canonical_forwarded hopHeaders_def header_names)
  have h4: "(if RequestWithBody f \<and> ?ct \<noteq> [] then Header_Set (?h3 url) ''Content-Type'' ?ct k else ?h3 url k) = None"
    for url
    using h3 [of url] ct by (simp add: Header_Set_other)
  obtain url where e: "header_entry fr k =
     (let h = ?base;
          h = fold (\<lambda>header h. Header_Del h header) hopHeaders h;
          h = set_forwarded r url h;
          h = fold (\<lambda>kv h. Header_Set h (''X-Forwarded-'' @ fst kv) (snd kv)) (ForwardHeaders f) h;
          ct = Header_Get (Header r) ''Content-Type''
      in if RequestWithBody f \<and> ct \<noteq> [] then Header_Set h ''Content-Type'' ct k else h k)"
    using ServeHTTP_shadow_entry [OF s, of k] by blast
  show ?thesis
    using h4 [of url] unfolding e Let_def .
qed

section \<open>Hop-by-hop headers\<close>

lemma hop_not_forwarded:
  "k \<in> set hopHeaders \<Longrightarrow> k \<noteq> ''Host'' \<and> take 12 k \<noteq> ''X-Forwarded-''"
  by (auto simp: hopHeaders_def header_names)

lemma ServeHTTP_handed:
  "\<exists>rw'. ServeHTTP f client_Do rw r = Inr rw'
     \<and> (\<forall>r' \<in> set (drop (length (next_requests rw)) (next_requests rw')).
           Header r' = Header r
           \<or> (\<exists>response. Header r' = copy_response_headers (ResponseHeaders f) response (Header r)))"
proof -
  obtain answer n where c: "client_Do = (answer, n)" by (cases client_Do)
  obtain fr where run: "ServeHTTP f (answer, n) rw r =
       Inr (requestPool_Put fr
             (ServeHTTP_decide f answer (if RequestWithBody f then r\<lparr>Body := take n (Body r)\<rparr> else r)
                ((snd (requestPool_Get rw))\<lparr>dispatched := dispatched (snd (requestPool_Get rw)) @ [fr]\<rparr>)))"
    using ServeHTTP_run [of f r rw answer n] by blast
  let ?r = "if RequestWithBody f then r\<lparr>Body := take n (Body r)\<rparr> else r"
  let ?rw = "(snd (requestPool_Get rw))\<lparr>dispatched := dispatched (snd (requestPool_Get rw)) @ [fr]\<rparr>"
  let ?rw1 = "ServeHTTP_decide f answer ?r ?rw"
  have d: "\<forall>r' \<in> set (drop (length (next_requests ?rw)) (next_requests ?rw1)).
                Header r' = Header r
                \<or> (\<exists>response. Header r' = copy_response_headers (ResponseHeaders f) response (Header r))"
    by (cases answer)
       (auto simp: ServeHTTP_decide_def ServeHTTP_deferred_def failure_status_member next_ServeHTTP_def
          WriteHeader_def raised_def relay_always Let_def split: option.splits)
  have "ServeHTTP f client_Do rw r = Inr (requestPool_Put fr ?rw1)" using run c by simp
  moreover have "\<forall>r' \<in> set (drop (length (next_requests rw)) (next_requests (requestPool_Put fr ?rw1))).
                Header r' = Header r
                \<or> (\<exists>response. Header r' = copy_response_headers (ResponseHeaders f) response (Header r))"
    using d by (simp add: requestPool_Put_fields requestPool_Get_fields)
  ultimately show ?thesis by blast
qed

text \<open>
  C3, as amended. For every inbound request that the installed handler
  \<^verbatim>\<open>Remover(ServeHTTP)\<close> serves: (1) none of the fixed hop-by-hop headers \<^verbatim>\<open>Connection\<close>,
  \<^verbatim>\<open>Keep-Alive\<close>, \<^verbatim>\<open>Te\<close>, \<^verbatim>\<open>Trailers\<close>, \<^verbatim>\<open>Transfer-Encoding\<close>, \<^verbatim>\<open>Upgrade\<close> is on the
  shadow request handed to the client; (2) no header named in the inbound \<^verbatim>\<open>Connection\<close>
  entry is on the shadow request, unless it is \<^verbatim>\<open>Host\<close> or begins with \<^verbatim>\<open>X-Forwarded-\<close>,
  the headers the builder sets itself; (3) \<^verbatim>\<open>Connection\<close> and every header named in it are
  absent from the request the downstream handler is called with, unless the name is on
  the response-header allowlist, from which a pass sets headers on the inbound request.
  The fixed hop-by-hop headers other than \<^verbatim>\<open>Connection\<close> are not removed from the request
  the downstream handler sees. A header is absent from a map that has no entry under the
  header's canonical name, the key that \<^verbatim>\<open>Header.Del\<close> deletes.
\<close>

theorem hop_by_hop_absent:
  "\<exists>rw' fr. Remover (ServeHTTP f client_Do) rw r = Inr rw'
      \<and> dispatched rw' = dispatched rw @ [fr]
      \<and> (\<forall>k \<in> set hopHeaders. header_entry fr k = None)
      \<and> (\<forall>name \<in> set (connection_tokens (Header r)).
            CanonicalMIMEHeaderKey name \<noteq> ''Host'' \<longrightarrow>
            take 12 (CanonicalMIMEHeaderKey name) \<noteq> ''X-Forwarded-'' \<longrightarrow>
            header_entry fr (CanonicalMIMEHeaderKey name) = None)
      \<and> (\<forall>r' \<in> set (drop (length (next_requests rw)) (next_requests rw')).
            \<forall>name \<in> set (connectionHeader # connection_tokens (Header r)).
              CanonicalMIMEHeaderKey name \<notin> CanonicalMIMEHeaderKey ` set (ResponseHeaders f) \<longrightarrow>
              Header r' (CanonicalMIMEHeaderKey name) = None)"
proof -
  let ?h = "Header_Del (removeConnectionHeaders (Header r)) connectionHeader"
  let ?r = "r\<lparr>Header := ?h\<rparr>"
  have wrap: "Remover (ServeHTTP f client_Do) rw r = ServeHTTP f client_Do rw ?r"
    by (simp add: Remover_def)
  have named: "?h (CanonicalMIMEHeaderKey name) = None"
    if "name \<in> set (connectionHeader # connection_tokens (Header r))" for name
    using that canonical_Connection by (auto simp: sanitized_entry)
  obtain rw' fr where run: "ServeHTTP f client_Do rw ?r = Inr rw'"
    and s: "ServeHTTP_shadow f ?r (fst (requestPool_Get rw)) = Inr fr"
    and sent: "dispatched rw' = dispatched rw @ [fr]"
    using ServeHTTP_dispatched [of f client_Do rw ?r] by blast
  have hops: "\<forall>k \<in> set hopHeaders. header_entry fr k = None"
    using shadow_entry_absent [OF s] hop_not_forwarded by blast
  have tokens: "\<forall>name \<in> set (connection_tokens (Header r)).
            CanonicalMIMEHeaderKey name \<noteq> ''Host'' \<longrightarrow>
            take 12 (CanonicalMIMEHeaderKey name) \<noteq> ''X-Forwarded-'' \<longrightarrow>
            header_entry fr (CanonicalMIMEHeaderKey name) = None"
  proof (intro ballI impI)
    fix name
    assume n: "name \<in> set (connection_tokens (Header r))"
      and k: "CanonicalMIMEHeaderKey name \<noteq> ''Host''" "take 12 (CanonicalMIMEHeaderKey name) \<noteq> ''X-Forwarded-''"
    have "Header ?r (CanonicalMIMEHeaderKey name) = None" using named [of name] n by simp
    then show "header_entry fr (CanonicalMIMEHeaderKey name) = None"
      using shadow_entry_absent [OF s k] by blast
  qed
  have handed: "\<forall>r' \<in> set (drop (length (next_requests rw)) (next_requests rw')).
            \<forall>name \<in> set (connectionHeader # connection_tokens (Header r)).
              CanonicalMIMEHeaderKey name \<notin> CanonicalMIMEHeaderKey ` set (ResponseHeaders f) \<longrightarrow>
              Header r' (CanonicalMIMEHeaderKey name) = None"
  proof (intro ballI impI)
    fix r' name
    assume r': "r' \<in> set (drop (length (next_requests rw)) (next_requests rw'))"
      and n: "name \<in> set (connectionHeader # connection_tokens (Header r))"
      and k: "CanonicalMIMEHeaderKey name \<notin> CanonicalMIMEHeaderKey ` set (ResponseHeaders f)"
    have "Header r' = ?h \<or> (\<exists>response. Header r' = copy_response_headers (ResponseHeaders f) response ?h)"
      using ServeHTTP_handed [of f client_Do rw ?r] run r' by auto
    then show "Header r' (CanonicalMIMEHeaderKey name) = None"
      using named [OF n] copy_response_headers_other [OF k] by auto
  qed
  have "Remover (ServeHTTP f client_Do) rw r = Inr rw'" using wrap run by simp
  from this sent hops tokens handed show ?thesis
    by - (rule exI [of _ rw'], rule exI [of _ fr], (rule conjI, assumption)+, assumption)
qed

lemmas sanitizer_eval =
  Remover_def removeConnectionHeaders_def index_def connectionHeader_def Header_Del_def TrimString_def
  isASCIISpace_def

theorem hop_by_hop_absent_witness:
  "sent_entries (Remover (ServeHTTP sample_filter (Responded (sample_response 204 0 []), 0)) sample_world sample_hop_request)
      ''Keep-Alive'' = Inr [None]
   \<and> sent_entries (Remover (ServeHTTP sample_filter (Responded (sample_response 204 0 []), 0)) sample_world sample_hop_request)
      ''X-Trace'' = Inr [None]
   \<and> handed_entries (Remover (ServeHTTP sample_filter (Responded (sample_response 204 0 []), 0)) sample_world sample_hop_request)
      ''X-Trace'' = Inr [None]
   \<and> handed_entries (Remover (ServeHTTP sample_filter (Responded (sample_response 204 0 []), 0)) sample_world sample_hop_request)
      ''Connection'' = Inr [None]"
proof -
  let ?run = "Remover (ServeHTTP sample_filter (Responded (sample_response 204 0 []), 0)) sample_world sample_hop_request"
  obtain rw' fr where run: "?run = Inr rw'"
    and sent: "dispatched rw' = dispatched sample_world @ [fr]"
    and hops: "\<forall>k \<in> set hopHeaders. header_entry fr k = None"
    and tokens: "\<forall>name \<in> set (connection_tokens (Header sample_hop_request)).
            CanonicalMIMEHeaderKey name \<noteq> ''Host'' \<longrightarrow>
            take 12 (CanonicalMIMEHeaderKey name) \<noteq> ''X-Forwarded-'' \<longrightarrow>
            header_entry fr (CanonicalMIMEHeaderKey name) = None"
    and handed: "\<forall>r' \<in> set (drop (length (next_requests sample_world)) (next_requests rw')).
            \<forall>name \<in> set (connectionHeader # connection_tokens (Header sample_hop_request)).
              CanonicalMIMEHeaderKey name \<notin> CanonicalMIMEHeaderKey ` set (ResponseHeaders sample_filter) \<longrightarrow>
              Header r' (CanonicalMIMEHeaderKey name) = None"
    using hop_by_hop_absent [of sample_filter "(Responded (sample_response 204 0 []), 0)" sample_world sample_hop_request]
    by blast
  have toks: "connection_tokens (Header sample_hop_request) = [''close'', ''x-trace'']"
    by (simp add: connection_tokens_def sample_hop_request_def sample_defs index_def connectionHeader_def
          TrimString_def isASCIISpace_def)
  have canon: "CanonicalMIMEHeaderKey ''x-trace'' = ''X-Trace''" "CanonicalMIMEHeaderKey ''close'' = ''Close''"
    "CanonicalMIMEHeaderKey ''X-Auth-Reason'' = ''X-Auth-Reason''"
    by (simp_all add: canonical_literals)
  have "map_sum id (\<lambda>rw. length (next_requests rw)) ?run = Inr 1"
    by (simp add: ServeHTTP_eval sanitizer_eval sample_hop_request_def sample_defs header_eval)
  then have next1: "length (next_requests rw') = 1"
    by (simp add: run)
  then obtain r' where r': "next_requests rw' = [r']"
    by (cases "next_requests rw'") auto
  have "header_entry fr ''Keep-Alive'' = None"
    using hops by (simp add: hopHeaders_def header_names)
  moreover have "header_entry fr ''X-Trace'' = None"
    using tokens by (simp add: toks canon)
  moreover have "Header r' ''X-Trace'' = None"
    using handed r' by (simp add: toks canon sample_defs connectionHeader_def canonical_Connection [unfolded connectionHeader_def])
  moreover have "Header r' ''Connection'' = None"
    using handed r' by (simp add: toks canon sample_defs connectionHeader_def canonical_Connection [unfolded connectionHeader_def])
  ultimately show ?thesis
    using run sent r' by (simp add: sent_entries_def handed_entries_def sample_world_def)
qed

text \<open>
  C3 as stated fails. An inbound \<^verbatim>\<open>Keep-Alive\<close> header that no \<^verbatim>\<open>Connection\<close> entry names
  reaches the downstream handler; a \<^verbatim>\<open>Connection\<close> entry naming \<^verbatim>\<open>X-Forwarded-Host\<close> does
  not keep that header off the shadow request, where the builder sets it; and a header
  that \<^verbatim>\<open>Connection\<close> names and the response-header allowlist lists is set on the
  request passed to the downstream handler from the authority's response.
\<close>

theorem hop_by_hop_counterexample:
  "Header sample_request ''Keep-Alive'' = Some [''timeout=5'']
   \<and> handed_entries
       (Remover (ServeHTTP (sample_filter\<lparr>FailurePolicy := FailureIgnore\<rparr>) (Failed ''connection refused'' None, 0))
          sample_world sample_request) ''Keep-Alive'' = Inr [Some [''timeout=5'']]
   \<and> sent_entries
       (Remover (ServeHTTP sample_filter (Responded (sample_response 204 0 []), 0))
          sample_world (sample_request\<lparr>Header := [''Connection'' \<mapsto> [''X-Forwarded-Host'']]\<rparr>))
          ''X-Forwarded-Host'' = Inr [Some [''shop.test'']]
   \<and> handed_entries
       (Remover (ServeHTTP sample_filter (Responded (sample_response 204 0 []), 0))
          sample_world (sample_request\<lparr>Header := [''Connection'' \<mapsto> [''X-Auth-Reason'']]\<rparr>))
          ''X-Auth-Reason'' = Inr [Some [''maintenance'']]"
  by (simp add: ServeHTTP_eval sanitizer_eval sample_defs header_eval)

section \<open>The forwarded-for chain\<close>

lemma fold_ForwardHeaders_untouched:
  "\<forall>kv \<in> set kvs. CanonicalMIMEHeaderKey (''X-Forwarded-'' @ fst kv) \<noteq> k \<Longrightarrow>
   fold (\<lambda>kv h. Header_Set h (''X-Forwarded-'' @ fst kv) (snd kv)) kvs h k = h k"
  by (induction kvs arbitrary: h) (auto simp: Header_Set_def simp del: append.simps)

lemma distinct_forwarded_names:
  "XForwardedFor \<noteq> xForwardedMethod" "XForwardedFor \<noteq> XForwardedHost" "XForwardedFor \<noteq> XForwardedUri"
  "XForwardedFor \<noteq> XForwardedProto" "XForwardedFor \<noteq> ''Content-Type''" "XForwardedFor \<noteq> ''Host''"
  by (simp_all add: header_names)

lemma set_forwarded_For:
  assumes "SplitHostPort (RemoteAddr req) = Inr (host, port)"
  shows "set_forwarded req url h XForwardedFor =
           Some [case Header req XForwardedFor of None \<Rightarrow> host | Some prior \<Rightarrow> Join prior '', '' @ '', '' @ host]"
proof -
  have n: "CanonicalMIMEHeaderKey xForwardedMethod \<noteq> XForwardedFor"
    "CanonicalMIMEHeaderKey XForwardedHost \<noteq> XForwardedFor"
    "CanonicalMIMEHeaderKey XForwardedUri \<noteq> XForwardedFor"
    "CanonicalMIMEHeaderKey XForwardedProto \<noteq> XForwardedFor"
    using distinct_forwarded_names by (auto simp: canonical_forwarded)
  have same: "Header_Set g XForwardedFor v XForwardedFor = Some [v]" for g v
    using Header_Set_same [of g XForwardedFor v] by (simp add: canonical_forwarded)
  show ?thesis
    using assms
    by (simp add: set_forwarded_def Let_def Header_Set_other n same split: option.splits)
qed

text \<open>
  The \<^verbatim>\<open>X-Forwarded-For\<close> entry of the shadow request that \<^verbatim>\<open>ServeHTTP\<close> builds from the
  request it is given, which is the inbound request after the sanitizer.
\<close>

lemma ServeHTTP_forwarded_for:
  assumes "SplitHostPort (RemoteAddr r) = Inr (host, port)"
      and "\<forall>kv \<in> set (ForwardHeaders f). CanonicalMIMEHeaderKey (''X-Forwarded-'' @ fst kv) \<noteq> XForwardedFor"
  shows "\<exists>rw' fr. ServeHTTP f client_Do rw r = Inr rw' \<and> dispatched rw' = dispatched rw @ [fr]
           \<and> header_entry fr XForwardedFor =
               Some [case Header r XForwardedFor of None \<Rightarrow> host
                     | Some prior \<Rightarrow> Join prior '', '' @ '', '' @ host]"
proof -
  obtain rw' fr where run: "ServeHTTP f client_Do rw r = Inr rw'"
    and s: "ServeHTTP_shadow f r (fst (requestPool_Get rw)) = Inr fr"
    and sent: "dispatched rw' = dispatched rw @ [fr]"
    using ServeHTTP_dispatched [of f client_Do rw r] by blast
  let ?base = "if RequestHeaders f = [] then copy_headers (Header r) Map.empty
               else allowed_headers (Header r) (RequestHeaders f) Map.empty"
  let ?h1 = "fold (\<lambda>header h. Header_Del h header) hopHeaders ?base"
  let ?h2 = "\<lambda>url. set_forwarded r url ?h1"
  let ?h3 = "\<lambda>url. fold (\<lambda>kv h. Header_Set h (''X-Forwarded-'' @ fst kv) (snd kv)) (ForwardHeaders f) (?h2 url)"
  let ?ct = "Header_Get (Header r) ''Content-Type''"
  let ?v = "case Header r XForwardedFor of None \<Rightarrow> host | Some prior \<Rightarrow> Join prior '', '' @ '', '' @ host"
  have h3: "?h3 url XForwardedFor = Some [?v]" for url
  proof -
    have "?h3 url XForwardedFor = ?h2 url XForwardedFor"
      by (rule fold_ForwardHeaders_untouched [OF assms(2)])
    also have "\<dots> = Some [?v]" by (rule set_forwarded_For [OF assms(1)])
    finally show ?thesis .
  qed
  have "CanonicalMIMEHeaderKey ''Content-Type'' \<noteq> XForwardedFor"
    using distinct_forwarded_names by (auto simp: canonical_forwarded)
  then have h4: "(if RequestWithBody f \<and> ?ct \<noteq> [] then Header_Set (?h3 url) ''Content-Type'' ?ct XForwardedFor
                  else ?h3 url XForwardedFor) = Some [?v]" for url
    using h3 [of url] by (simp add: Header_Set_other)
  obtain url where e: "header_entry fr XForwardedFor =
     (let h = ?base;
          h = fold (\<lambda>header h. Header_Del h header) hopHeaders h;
          h = set_forwarded r url h;
          h = fold (\<lambda>kv h. Header_Set h (''X-Forwarded-'' @ fst kv) (snd kv)) (ForwardHeaders f) h;
          ct = Header_Get (Header r) ''Content-Type''
      in if RequestWithBody f \<and> ct \<noteq> [] then Header_Set h ''Content-Type'' ct XForwardedFor else h XForwardedFor)"
    using ServeHTTP_shadow_entry [OF s, of XForwardedFor] by blast
  have "header_entry fr XForwardedFor = Some [?v]"
    using h4 [of url] unfolding e Let_def .
  from run sent this show ?thesis
    by - (rule exI [of _ rw'], rule exI [of _ fr], (rule conjI, assumption)+, assumption)
qed

text \<open>
  C7, as amended. For every inbound request that the installed handler
  \<^verbatim>\<open>Remover(ServeHTTP)\<close> serves, whose peer address \<^verbatim>\<open>net.SplitHostPort\<close> splits into a host
  and a port, and with no entry of the operator's forward headers that sets
  \<^verbatim>\<open>X-Forwarded-For\<close> itself, the shadow request handed to the client carries exactly one
  \<^verbatim>\<open>X-Forwarded-For\<close> value: the values of the inbound \<^verbatim>\<open>X-Forwarded-For\<close> entry joined with
  comma and space, then comma and space, then the host. It is the host alone when the
  inbound request has no \<^verbatim>\<open>X-Forwarded-For\<close> entry, and also when its \<^verbatim>\<open>Connection\<close> entry
  names \<^verbatim>\<open>X-Forwarded-For\<close>, for the sanitizer then deletes the chain before it is read.
\<close>

theorem forwarded_for_chain:
  assumes "SplitHostPort (RemoteAddr r) = Inr (host, port)"
      and "\<forall>kv \<in> set (ForwardHeaders f). CanonicalMIMEHeaderKey (''X-Forwarded-'' @ fst kv) \<noteq> XForwardedFor"
  shows "\<exists>rw' fr. Remover (ServeHTTP f client_Do) rw r = Inr rw' \<and> dispatched rw' = dispatched rw @ [fr]
           \<and> header_entry fr XForwardedFor =
               Some [case (if XForwardedFor \<in> CanonicalMIMEHeaderKey ` set (connection_tokens (Header r))
                           then None else Header r XForwardedFor) of
                       None \<Rightarrow> host
                     | Some prior \<Rightarrow> Join prior '', '' @ '', '' @ host]"
proof -
  let ?h = "Header_Del (removeConnectionHeaders (Header r)) connectionHeader"
  let ?r = "r\<lparr>Header := ?h\<rparr>"
  have wrap: "Remover (ServeHTTP f client_Do) rw r = ServeHTTP f client_Do rw ?r"
    by (simp add: Remover_def)
  have "XForwardedFor \<noteq> connectionHeader"
    by (simp add: header_names connectionHeader_def)
  then have chain: "Header ?r XForwardedFor =
      (if XForwardedFor \<in> CanonicalMIMEHeaderKey ` set (connection_tokens (Header r))
       then None else Header r XForwardedFor)"
    by (simp add: sanitized_entry)
  have split: "SplitHostPort (RemoteAddr ?r) = Inr (host, port)"
    using assms(1) by simp
  obtain rw' fr where run: "ServeHTTP f client_Do rw ?r = Inr rw'"
    and sent: "dispatched rw' = dispatched rw @ [fr]"
    and entry: "header_entry fr XForwardedFor =
               Some [case Header ?r XForwardedFor of None \<Rightarrow> host
                     | Some prior \<Rightarrow> Join prior '', '' @ '', '' @ host]"
    using ServeHTTP_forwarded_for [OF split assms(2), of client_Do rw] by blast
  have "Remover (ServeHTTP f client_Do) rw r = Inr rw'" using wrap run by simp
  moreover have "header_entry fr XForwardedFor =
               Some [case (if XForwardedFor \<in> CanonicalMIMEHeaderKey ` set (connection_tokens (Header r))
                           then None else Header r XForwardedFor) of
                       None \<Rightarrow> host
                     | Some prior \<Rightarrow> Join prior '', '' @ '', '' @ host]"
    using entry by (simp only: chain)
  ultimately show ?thesis using sent
    by - (rule exI [of _ rw'], rule exI [of _ fr], (rule conjI, assumption)+, assumption)
qed

theorem forwarded_for_chain_witness:
  "Header sample_hop_request XForwardedFor = Some [''1.1.1.1'']
   \<and> connection_tokens (Header sample_hop_request) = [''close'', ''x-trace'']
   \<and> SplitHostPort (RemoteAddr sample_hop_request) = Inr (''2.2.2.2'', ''4711'')
   \<and> sent_entries
       (Remover (ServeHTTP (sample_filter\<lparr>ForwardHeaders := [(''Tenant'', ''blue'')]\<rparr>)
                   (Responded (sample_response 204 0 []), 0)) sample_world sample_hop_request)
       XForwardedFor = Inr [Some [''1.1.1.1, 2.2.2.2'']]"
proof -
  let ?f = "sample_filter\<lparr>ForwardHeaders := [(''Tenant'', ''blue'')]\<rparr>"
  have split: "SplitHostPort (RemoteAddr sample_hop_request) = Inr (''2.2.2.2'', ''4711'')"
    by (simp add: SplitHostPort_samples sample_hop_request_def sample_defs)
  have none: "\<forall>kv \<in> set (ForwardHeaders ?f).
                CanonicalMIMEHeaderKey (''X-Forwarded-'' @ fst kv) \<noteq> XForwardedFor"
    by (simp add: sample_defs canonical_literals header_names)
  have prior: "Header sample_hop_request XForwardedFor = Some [''1.1.1.1'']"
    by (simp add: sample_hop_request_def sample_defs header_names)
  have toks: "connection_tokens (Header sample_hop_request) = [''close'', ''x-trace'']"
    by (simp add: connection_tokens_def sample_hop_request_def sample_defs index_def connectionHeader_def
          TrimString_def isASCIISpace_def)
  have kept: "XForwardedFor \<notin> CanonicalMIMEHeaderKey ` set (connection_tokens (Header sample_hop_request))"
    by (simp add: toks canonical_literals header_names)
  obtain rw' fr where
    "Remover (ServeHTTP ?f (Responded (sample_response 204 0 []), 0)) sample_world sample_hop_request = Inr rw'"
    "dispatched rw' = dispatched sample_world @ [fr]"
    "header_entry fr XForwardedFor =
       Some [case (if XForwardedFor \<in> CanonicalMIMEHeaderKey ` set (connection_tokens (Header sample_hop_request))
                   then None else Header sample_hop_request XForwardedFor) of
               None \<Rightarrow> ''2.2.2.2''
             | Some prior \<Rightarrow> Join prior '', '' @ '', '' @ ''2.2.2.2'']"
    using forwarded_for_chain [OF split none, of "(Responded (sample_response 204 0 []), 0)" sample_world]
    by blast
  then show ?thesis
    using split prior toks kept by (simp add: sent_entries_def sample_world_def)
qed

text \<open>
  C7 as stated fails. A peer address without a port (\<^verbatim>\<open>2.2.2.2\<close>) is refused by
  \<^verbatim>\<open>net.SplitHostPort\<close>, and the shadow request, built here from an allowlist, carries no
  \<^verbatim>\<open>X-Forwarded-For\<close> at all; a forward header \<^verbatim>\<open>For\<close> of the operator replaces the chain
  by the operator's value; and an inbound \<^verbatim>\<open>Connection\<close> entry that names
  \<^verbatim>\<open>X-Forwarded-For\<close> has the sanitizer delete the chain \<^verbatim>\<open>1.1.1.1\<close>, so that the shadow
  request carries the peer's host alone.
\<close>

theorem forwarded_for_counterexample:
  "SplitHostPort ''2.2.2.2'' = Inl ''missing port in address''
   \<and> sent_entries
       (Remover (ServeHTTP (sample_filter\<lparr>RequestHeaders := [''Accept'']\<rparr>) (Responded (sample_response 204 0 []), 0))
          sample_world (sample_request\<lparr>RemoteAddr := ''2.2.2.2''\<rparr>)) XForwardedFor = Inr [None]
   \<and> sent_entries
       (Remover (ServeHTTP (sample_filter\<lparr>ForwardHeaders := [(''For'', ''9.9.9.9'')]\<rparr>)
                   (Responded (sample_response 204 0 []), 0))
          sample_world sample_request) XForwardedFor = Inr [Some [''9.9.9.9'']]
   \<and> Header sample_request XForwardedFor = Some [''1.1.1.1'']
   \<and> sent_entries
       (Remover (ServeHTTP sample_filter (Responded (sample_response 204 0 []), 0))
          sample_world
          (sample_request\<lparr>Header := (Header sample_request)(''Connection'' \<mapsto> [''X-Forwarded-For''])\<rparr>))
       XForwardedFor = Inr [Some [''2.2.2.2'']]"
  by (simp add: ServeHTTP_eval sanitizer_eval sample_defs header_eval)

section \<open>Copying every inbound header\<close>

text \<open>
  C6 fails on the code. With an empty allowlist the copy loop stores, for each inbound
  header, \<^verbatim>\<open>append(req.Header[k], vv...)\<close>, where \<open>vv\<close> is \<^verbatim>\<open>req.Header[k]\<close> itself: every
  value list is written twice over. The inbound \<^verbatim>\<open>Accept\<close> header with the two values
  \<^verbatim>\<open>text/html\<close> and \<^verbatim>\<open>text/plain\<close> has four values after the loop, after \<^verbatim>\<open>writeHeader\<close>, and
  on the shadow request that \<^verbatim>\<open>ServeHTTP\<close> hands to the client.
\<close>

theorem copied_values_doubled:
  "RequestHeaders sample_filter = []
   \<and> Header sample_request ''Accept'' = Some [''text/html'', ''text/plain'']
   \<and> copy_headers (Header sample_request) Map.empty ''Accept''
       = Some [''text/html'', ''text/plain'', ''text/html'', ''text/plain'']
   \<and> written_entry (writeHeader sample_request sample_pooled []) ''Accept''
       = Inr (Some [''text/html'', ''text/plain'', ''text/html'', ''text/plain''])
   \<and> sent_entries (ServeHTTP sample_filter (Responded (sample_response 204 0 []), 0) sample_world sample_request)
       ''Accept'' = Inr [Some [''text/html'', ''text/plain'', ''text/html'', ''text/plain'']]"
  by (simp add: ServeHTTP_eval sample_defs sample_pooled_def header_eval)

section \<open>The two versions of writeHeader\<close>

text \<open>
  On a shadow request whose header map is nil, the \<^verbatim>\<open>writeHeader\<close> of
  \<^verbatim>\<open>src/unnamed/part_000\<close> panics for the empty allowlist, whatever the inbound request;
  for every other allowlist the two versions return the same.
\<close>

lemma writeHeader_part_000_nil_map:
  "fwd_Header forwardReq = None \<Longrightarrow> \<exists>p. writeHeader_part_000 req forwardReq [] = Inl p"
  by (simp add: writeHeader_part_000_def writeHeader_rest_def split: option.splits)

lemma writeHeader_part_000_allowlist:
  "allowedHeaders \<noteq> [] \<Longrightarrow>
   writeHeader_part_000 req forwardReq allowedHeaders = writeHeader req forwardReq allowedHeaders"
  by (simp add: writeHeader_part_000_def writeHeader_def Let_def split: sum.splits)

text \<open>
  C10 fails on the code. For the sample request, the empty allowlist and a shadow request
  fresh from the pool (header map nil, URL set), the \<^verbatim>\<open>writeHeader\<close> of
  \<^verbatim>\<open>src/unnamed/part_000\<close> panics on the assignment to an entry of a nil map, while the one
  of \<^verbatim>\<open>src/unnamed/part_001\<close> returns a populated header map.
\<close>

theorem writeHeader_part_000_panics:
  "fwd_Header sample_pooled = None
   \<and> writeHeader_part_000 sample_request sample_pooled [] = Inl NilMapAssignment
   \<and> written_entry (writeHeader sample_request sample_pooled []) ''Host'' = Inr (Some [''auth.internal''])
   \<and> written_entry (writeHeader sample_request sample_pooled []) ''X-Forwarded-Uri'' = Inr (Some [''/orders?id=7''])"
  by (simp add: sample_defs sample_pooled_def writeHeader_part_000_def writeHeader_Some header_eval)

end
